theory Spec2Isabelle
  imports Complex_Main
begin

section \<open>The image classifier dashboard (image_classify.py)\<close>

text \<open>
  The program is one script that the hosting framework runs from top to bottom on every
  interaction. The third-party libraries it calls (the image codec, the pretrained network,
  the attribution algorithm, the widgets) are not part of the repository: they are taken
  as parameters, gathered in the record \<open>libs\<close>, and every call that can raise returns a
  sum, \<open>Inl\<close> the exception. What the script itself does - the ranking of the softmax
  outputs, the renaming, the session state, the two text files, the branch on the selected
  page - is translated line by line.
\<close>

subsection \<open>Strings, bytes and the clock\<close>

text \<open>
  A text (a Python \<open>str\<close>) is held as the string of its UTF-8 bytes, so that any text
  has its model; the bytes of a file content are a string as well.
\<close>

type_synonym bytes = "char list"

text \<open>\<open>str.lower()\<close> and \<open>str.upper()\<close>, on the ASCII letters that format names are made of.\<close>

definition lower_char :: "char \<Rightarrow> char" where
  "lower_char c =
     (if 65 \<le> (of_char c :: nat) \<and> (of_char c :: nat) \<le> 90
      then char_of ((of_char c :: nat) + 32) else c)"

definition upper_char :: "char \<Rightarrow> char" where
  "upper_char c =
     (if 97 \<le> (of_char c :: nat) \<and> (of_char c :: nat) \<le> 122
      then char_of ((of_char c :: nat) - 32) else c)"

definition lower :: "string \<Rightarrow> string" where
  "lower s = map lower_char s"

definition upper :: "string \<Rightarrow> string" where
  "upper s = map upper_char s"

definition newline :: char where
  "newline = CHR 0x0A"

text \<open>
  \<open>datetime.now()\<close> and its \<open>str()\<close>, which the f-string of line 132 applies:
  \<open>YYYY-MM-DD HH:MM:SS\<close>, followed by \<open>.ffffff\<close> unless the microseconds are zero.
\<close>

record datetime =
  year :: nat
  month :: nat
  day :: nat
  hour :: nat
  minute :: nat
  second :: nat
  microsecond :: nat

definition digit_char :: "nat \<Rightarrow> char" where
  "digit_char d = char_of (48 + d)"

fun string_of_nat :: "nat \<Rightarrow> string" where
  "string_of_nat n =
     (if n < 10 then [digit_char n] else string_of_nat (n div 10) @ [digit_char (n mod 10)])"

declare string_of_nat.simps [simp del]

text \<open>The conversion \<open>%0kd\<close>: at least \<open>k\<close> digits, padded with zeros on the left.\<close>

definition zero_padded :: "nat \<Rightarrow> nat \<Rightarrow> string" where
  "zero_padded k n = replicate (k - length (string_of_nat n)) (CHR ''0'') @ string_of_nat n"

definition str_datetime :: "datetime \<Rightarrow> string" where
  "str_datetime dt =
     zero_padded 4 (year dt) @ ''-'' @ zero_padded 2 (month dt) @ ''-'' @ zero_padded 2 (day dt)
     @ '' '' @ zero_padded 2 (hour dt) @ '':'' @ zero_padded 2 (minute dt) @ '':''
     @ zero_padded 2 (second dt)
     @ (if microsecond dt = 0 then [] else ''.'' @ zero_padded 6 (microsecond dt))"

text \<open>The values a \<open>datetime\<close> object can hold.\<close>

definition valid_datetime :: "datetime \<Rightarrow> bool" where
  "valid_datetime dt =
     (1 \<le> year dt \<and> year dt \<le> 9999 \<and> 1 \<le> month dt \<and> month dt \<le> 12 \<and> 1 \<le> day dt \<and> day dt \<le> 31
      \<and> hour dt < 24 \<and> minute dt < 60 \<and> second dt < 60 \<and> microsecond dt < 1000000)"

text \<open>
  What "contains a timestamp" means for a line of text: somewhere in it stands a date and
  a time of day in the form above, four digits, two and two for the date, two, two and two
  for the time. This predicate is the reading of the specification's words; it is not part
  of the program.
\<close>

datatype pattern_item = Digit | Literal char

definition is_digit :: "char \<Rightarrow> bool" where
  "is_digit c = (48 \<le> (of_char c :: nat) \<and> (of_char c :: nat) \<le> 57)"

fun matches_prefix :: "pattern_item list \<Rightarrow> string \<Rightarrow> bool" where
  "matches_prefix [] s = True"
| "matches_prefix (p # ps) [] = False"
| "matches_prefix (Digit # ps) (c # cs) = (is_digit c \<and> matches_prefix ps cs)"
| "matches_prefix (Literal x # ps) (c # cs) = (c = x \<and> matches_prefix ps cs)"

definition timestamp_pattern :: "pattern_item list" where
  "timestamp_pattern =
     [Digit, Digit, Digit, Digit, Literal (CHR ''-''), Digit, Digit, Literal (CHR ''-''),
      Digit, Digit, Literal (CHR '' ''), Digit, Digit, Literal (CHR '':''), Digit, Digit,
      Literal (CHR '':''), Digit, Digit]"

fun contains_timestamp :: "string \<Rightarrow> bool" where
  "contains_timestamp [] = False"
| "contains_timestamp (c # cs) =
     (matches_prefix timestamp_pattern (c # cs) \<or> contains_timestamp cs)"



subsection \<open>The ranking of make_prediction\<close>

text \<open>
  \<open>probs.argsort()\<close>: the indices of the vector in ascending order of their values.
  The order of equal values among themselves is the sorting routine's choice; the model
  keeps them in index order. Nothing proved below depends on that choice.
\<close>

definition argsort :: "'a::linorder list \<Rightarrow> nat list" where
  "argsort xs = sort_key (\<lambda>i. xs ! i) [0..<length xs]"

text \<open>The slice \<open>a[-5:]\<close>: the last five elements, or all of them when there are fewer.\<close>

definition last_five :: "'b list \<Rightarrow> 'b list" where
  "last_five xs = drop (length xs - 5) xs"

text \<open>
  Line 27: \<open>prob, idxs = probs[probs.argsort()[-5:][::-1]], probs.argsort()[-5:][::-1]\<close>.
  The indices come from \<open>argsort\<close> of the same vector, so the fancy indexing is in range.
\<close>

definition top_five :: "'a::linorder list \<Rightarrow> 'a list \<times> nat list" where
  "top_five probs =
     (map (\<lambda>i. probs ! i) (rev (last_five (argsort probs))), rev (last_five (argsort probs)))"

subsection \<open>Exceptions, libraries and the state of a run\<close>

datatype error =
    UnidentifiedImageError
  | ModelLoadError
  | OSError
  | UnicodeEncodeError
  | IndexError
  | AttributeError
  | StreamlitAPIException
  | LibraryError string

text \<open>
  A file that a user offers to the uploader: its type, which is the extension of its name
  as the user's file has it (in any letter case), and its bytes.
\<close>

record upload =
  up_type :: string
  up_content :: bytes

text \<open>
  The libraries, as the script uses them. \<open>'i\<close> is a decoded image object, \<open>'t\<close> a
  preprocessed tensor, \<open>'m\<close> the network, \<open>'f\<close> an attribution array.
  \<^item> \<open>file_uploader types offered\<close> is \<open>st.file_uploader(label, type=types)\<close> in a run
    where the user offers the file \<open>offered\<close>, or none: it returns the file it hands to
    the script, or none, or raises. The widget is the framework's; nothing of it is in the
    script but the call, so what it returns is left open here;
  \<^item> \<open>image_open\<close> is \<open>Image.open\<close> on the uploaded bytes, \<open>image_format\<close> the attribute
    \<open>img.format\<close>, \<open>image_save img fmt\<close> is \<open>img.save(buf, format=fmt)\<close> followed by
    \<open>buf.getvalue()\<close>;
  \<^item> \<open>resnet50\<close> is the body of \<open>load_model\<close>: building the network with its pretrained
    weights and switching it to evaluation mode;
  \<^item> \<open>preprocess_func\<close> and \<open>categories\<close> are the two module-level values of lines 13-14;
  \<^item> \<open>softmax_out model x\<close> is \<open>model(x.unsqueeze(0)).softmax(1)[0].detach().numpy()\<close>,
    the vector of softmax outputs (one finite number per category);
  \<^item> \<open>ig_attribute model x target\<close> is
    \<open>IntegratedGradients(model).attribute(x.unsqueeze(0), target=target)[0].numpy().transpose(1, 2, 0)\<close>.
\<close>

record ('i, 't, 'm, 'f) libs =
  file_uploader :: "string list \<Rightarrow> upload option \<Rightarrow> error + upload option"
  image_open :: "bytes \<Rightarrow> error + 'i"
  image_format :: "'i \<Rightarrow> string"
  image_save :: "'i \<Rightarrow> string \<Rightarrow> error + bytes"
  resnet50 :: "error + 'm"
  preprocess_func :: "'i \<Rightarrow> error + 't"
  softmax_out :: "'m \<Rightarrow> 't \<Rightarrow> error + real list"
  ig_attribute :: "'m \<Rightarrow> 't \<Rightarrow> nat \<Rightarrow> error + 'f"
  categories :: "string list"

text \<open>What a run shows on the page and which library calls it makes, in order.\<close>

datatype ('i, 'f) event =
    Sidebar_title string
  | Title string
  | Write string
  | Subheader string
  | Success string
  | Plot_top5 "string list" "real list"
  | Plot_image 'i
  | Plot_attribution 'f
  | Download_button string bytes string string
  | Call_file_uploader "string list"
  | Call_image_open bytes
  | Call_resnet50
  | Call_preprocess
  | Call_model
  | Call_attribute nat
  | Call_image_save string
  | Call_open_append string
  | Call_write string

text \<open>\<open>st.session_state\<close>: the six keys the script stores, each absent or present.\<close>

record ('i, 'f) session_state =
  ss_img :: "'i option"
  ss_probs :: "real list option"
  ss_idxs :: "nat list option"
  ss_feature_imp :: "'f option"
  ss_new_filename :: "string option"
  ss_img_byte_arr :: "bytes option"

text \<open>
  Everything that outlives a statement: the session state, the cache of \<open>load_model\<close>,
  the text files by name (an absent file reads as empty, and appending creates it),
  whether a file can be opened for appending, the default encoding that \<open>open\<close> uses
  for text files, and the trace of events. Of the encoding only this matters: which texts it
  can encode. It is given by the bytes from 128 upwards of the texts that it can encode:
  in UTF-8 those bytes, in their order, are the characters of a text outside ASCII.
\<close>

record ('i, 'm, 'f) world =
  session :: "('i, 'f) session_state"
  model_cache :: "'m option"
  files :: "string \<Rightarrow> string"
  writable :: "string \<Rightarrow> bool"
  encoding :: "string \<Rightarrow> bool"
  trace :: "('i, 'f) event list"

text \<open>
  The widget values of one run; \<open>uploaded\<close> is the file the user offers to the uploader
  in this run, if any.
\<close>

record inputs =
  radio_choice :: nat
  uploaded :: "upload option"
  like_clicked :: bool
  dislike_clicked :: bool
  comment_text :: string
  submit_clicked :: bool
  clock :: datetime

definition emit :: "('i, 'f) event \<Rightarrow> ('i, 'm, 'f) world \<Rightarrow> ('i, 'm, 'f) world" where
  "emit e w = w\<lparr>trace := trace w @ [e]\<rparr>"

subsection \<open>Widgets\<close>

text \<open>
  \<open>st.sidebar.radio\<close> returns the selected one of its options, the first by default.
\<close>

definition nav_options :: "string list" where
  "nav_options = [''Image Classifier'', ''Connect to Us'']"

definition sidebar_radio :: "string list \<Rightarrow> nat \<Rightarrow> string" where
  "sidebar_radio options i = (if i < length options then options ! i else options ! 0)"

text \<open>Line 44: the \<open>type\<close> argument that the script gives to \<open>st.file_uploader\<close>.\<close>

definition upload_types :: "string list" where
  "upload_types = [''png'', ''jpg'', ''jpeg'']"

text \<open>
  Modelled from the spec: the file upload widget is not part of the repository. The
  specification says of it "file upload accepting PNG/JPG/JPEG", the types of line 44. A
  widget honours its \<open>type\<close> argument when it hands to the script only the file that the
  user offers, only if the type of that file, letter case set aside, is one of the types
  given, and when it does hand over every offered file of such a type. What the widget does
  with a file of another type (to return none or to raise) is not said, and nothing is
  asked of it here.
\<close>

definition honours_types ::
  "(string list \<Rightarrow> upload option \<Rightarrow> error + upload option) \<Rightarrow> string list \<Rightarrow> bool" where
  "honours_types widget types =
     (\<forall>offered u.
        (widget types offered = Inr (Some u)
           \<longrightarrow> offered = Some u \<and> lower (up_type u) \<in> set (map lower types))
        \<and> (offered = Some u \<and> lower (up_type u) \<in> set (map lower types)
           \<longrightarrow> widget types offered = Inr (Some u)))"

text \<open>Lines 17-21: \<open>load_model\<close> under \<open>st.cache_data\<close>; the body runs when nothing is cached.\<close>

definition load_model ::
  "('i, 't, 'm, 'f) libs \<Rightarrow> ('i, 'm, 'f) world \<Rightarrow> (error + 'm) \<times> ('i, 'm, 'f) world" where
  "load_model L w =
     (case model_cache w of
        Some m \<Rightarrow> (Inr m, w)
      | None \<Rightarrow>
          (case resnet50 L of
             Inl e \<Rightarrow> (Inl e, emit Call_resnet50 w)
           | Inr m \<Rightarrow> (Inr m, (emit Call_resnet50 w)\<lparr>model_cache := Some m\<rparr>)))"

text \<open>Lines 23-28.\<close>

definition make_prediction ::
  "('i, 't, 'm, 'f) libs \<Rightarrow> 'm \<Rightarrow> 't \<Rightarrow> ('i, 'm, 'f) world
     \<Rightarrow> (error + real list \<times> nat list) \<times> ('i, 'm, 'f) world" where
  "make_prediction L model processed_img w =
     (case softmax_out L model processed_img of
        Inl e \<Rightarrow> (Inl e, emit Call_model w)
      | Inr probs \<Rightarrow> (Inr (top_five probs), emit Call_model w))"

text \<open>Lines 30-35.\<close>

definition interpret_prediction ::
  "('i, 't, 'm, 'f) libs \<Rightarrow> 'm \<Rightarrow> 't \<Rightarrow> nat \<Rightarrow> ('i, 'm, 'f) world
     \<Rightarrow> (error + 'f) \<times> ('i, 'm, 'f) world" where
  "interpret_prediction L model processed_img target w =
     (ig_attribute L model processed_img target, emit (Call_attribute target) w)"

text \<open>
  \<open>categories[idxs]\<close>: indexing the array of category names by an array of indices
  raises IndexError when an index is out of range.
\<close>

definition index_categories :: "string list \<Rightarrow> nat list \<Rightarrow> error + string list" where
  "index_categories cats idxs =
     (if list_all (\<lambda>i. i < length cats) idxs then Inr (map (\<lambda>i. cats ! i) idxs)
      else Inl IndexError)"

text \<open>
  Lines 47-51: the image of this run is the upload, opened and remembered in the session
  state, or else the image remembered there.
\<close>

definition current_image ::
  "('i, 't, 'm, 'f) libs \<Rightarrow> upload option \<Rightarrow> ('i, 'm, 'f) world
     \<Rightarrow> (error + 'i) \<times> ('i, 'm, 'f) world" where
  "current_image L upl w =
     (case upl of
        Some u \<Rightarrow>
          (case image_open L (up_content u) of
             Inl e \<Rightarrow> (Inl e, emit (Call_image_open (up_content u)) w)
           | Inr img \<Rightarrow>
               (Inr img,
                (emit (Call_image_open (up_content u)) w)
                  \<lparr>session := (session w)\<lparr>ss_img := Some img\<rparr>\<rparr>))
      | None \<Rightarrow>
          (case ss_img (session w) of
             Some img \<Rightarrow> (Inr img, w)
           | None \<Rightarrow> (Inl AttributeError, w)))"

text \<open>Lines 55-62: load, preprocess, predict, attribute, and store the three results.\<close>

definition predict_and_interpret ::
  "('i, 't, 'm, 'f) libs \<Rightarrow> 'i \<Rightarrow> ('i, 'm, 'f) world
     \<Rightarrow> (error + real list \<times> nat list \<times> 'f) \<times> ('i, 'm, 'f) world" where
  "predict_and_interpret L img w =
     (case load_model L w of
        (Inl e, w1) \<Rightarrow> (Inl e, w1)
      | (Inr model, w1) \<Rightarrow>
          (case preprocess_func L img of
             Inl e \<Rightarrow> (Inl e, emit Call_preprocess w1)
           | Inr preprocessed_img \<Rightarrow>
               (case make_prediction L model preprocessed_img (emit Call_preprocess w1) of
                  (Inl e, w3) \<Rightarrow> (Inl e, w3)
                | (Inr (probs, idxs), w3) \<Rightarrow>
                    (case idxs of
                       [] \<Rightarrow> (Inl IndexError, w3)
                     | target # rest \<Rightarrow>
                         (case interpret_prediction L model preprocessed_img target w3 of
                            (Inl e, w4) \<Rightarrow> (Inl e, w4)
                          | (Inr feature_imp, w4) \<Rightarrow>
                              (Inr (probs, idxs, feature_imp),
                               w4\<lparr>session := (session w4)
                                    \<lparr>ss_probs := Some probs, ss_idxs := Some idxs,
                                     ss_feature_imp := Some feature_imp\<rparr>\<rparr>))))))"

text \<open>
  Lines 64-90: the bar chart of the five categories (drawn bottom-up, hence reversed),
  the image and the attribution figure.
\<close>

definition render_plots ::
  "('i, 't, 'm, 'f) libs \<Rightarrow> 'i \<Rightarrow> real list \<Rightarrow> nat list \<Rightarrow> 'f \<Rightarrow> ('i, 'm, 'f) world
     \<Rightarrow> error option \<times> ('i, 'm, 'f) world" where
  "render_plots L img probs idxs feature_imp w =
     (case index_categories (categories L) idxs of
        Inl e \<Rightarrow> (Some e, w)
      | Inr names \<Rightarrow>
          (None,
           emit (Plot_attribution feature_imp)
             (emit (Plot_image img) (emit (Plot_top5 (rev names) (rev probs)) w))))"

text \<open>Lines 92-104: the new file name, the re-encoded image and the download button.\<close>

definition offer_download ::
  "('i, 't, 'm, 'f) libs \<Rightarrow> 'i \<Rightarrow> string \<Rightarrow> nat list \<Rightarrow> ('i, 'm, 'f) world
     \<Rightarrow> error option \<times> ('i, 'm, 'f) world" where
  "offer_download L img img_format idxs w =
     (case index_categories (categories L) idxs of
        Inl e \<Rightarrow> (Some e, w)
      | Inr [] \<Rightarrow> (Some IndexError, w)
      | Inr (top_category # others) \<Rightarrow>
          (let new_filename = top_category @ ''.'' @ img_format;
               w1 = w\<lparr>session := (session w)\<lparr>ss_new_filename := Some new_filename\<rparr>\<rparr>;
               w2 = emit (Call_image_save (upper img_format)) w1
           in case image_save L img (upper img_format) of
                Inl e \<Rightarrow> (Some e, w2)
              | Inr img_byte_arr \<Rightarrow>
                  (None,
                   emit (Download_button ''Download Renamed Image'' img_byte_arr new_filename
                           (''image/'' @ img_format))
                     (w2\<lparr>session := (session w2)\<lparr>ss_img_byte_arr := Some img_byte_arr\<rparr>\<rparr>))))"

text \<open>Lines 53-104, for the image of this run.\<close>

definition classify_image ::
  "('i, 't, 'm, 'f) libs \<Rightarrow> 'i \<Rightarrow> ('i, 'm, 'f) world \<Rightarrow> error option \<times> ('i, 'm, 'f) world" where
  "classify_image L img w =
     (let img_format = lower (image_format L img)
      in case predict_and_interpret L img w of
           (Inl e, w1) \<Rightarrow> (Some e, w1)
         | (Inr (probs, idxs, feature_imp), w1) \<Rightarrow>
             (case render_plots L img probs idxs feature_imp w1 of
                (Some e, w2) \<Rightarrow> (Some e, w2)
              | (None, w2) \<Rightarrow> offer_download L img img_format idxs w2))"

text \<open>Lines 42-104: the "Image Classifier" page.\<close>

definition classifier_page ::
  "('i, 't, 'm, 'f) libs \<Rightarrow> inputs \<Rightarrow> ('i, 'm, 'f) world \<Rightarrow> error option \<times> ('i, 'm, 'f) world" where
  "classifier_page L inp w =
     (let w1 = emit (Call_file_uploader upload_types)
                 (emit (Title ''ResNet-50 Image Classifier'') w)
      in case file_uploader L upload_types (uploaded inp) of
           Inl e \<Rightarrow> (Some e, w1)
         | Inr upl \<Rightarrow>
             if upl \<noteq> None \<or> ss_img (session w1) \<noteq> None
             then (case current_image L upl w1 of
                     (Inl e, w2) \<Rightarrow> (Some e, w2)
                   | (Inr img, w2) \<Rightarrow> classify_image L img w2)
             else (None, w1))"

text \<open>
  Whether the default encoding can encode a text. A text of ASCII characters only can
  always be encoded: the default encoding of a platform that Python runs on extends ASCII.
  For any other text it depends on its characters outside ASCII.
\<close>

definition encodable :: "('i, 'm, 'f) world \<Rightarrow> string \<Rightarrow> bool" where
  "encodable w text =
     (list_all (\<lambda>c. \<not> digit7 c) text \<or> encoding w (filter digit7 text))"

text \<open>
  \<open>with open(name, "a") as f: f.write(text)\<close>: the file is opened for appending, or
  OSError is raised; then the text is encoded and added at the end of the file, or
  UnicodeEncodeError is raised for a text that the encoding of the file cannot encode.
  Either exception leaves the file as it was.
\<close>

definition append_file ::
  "string \<Rightarrow> string \<Rightarrow> ('i, 'm, 'f) world \<Rightarrow> error option \<times> ('i, 'm, 'f) world" where
  "append_file name text w =
     (if \<not> writable w name then (Some OSError, emit (Call_open_append name) w)
      else if \<not> encodable w text
      then (Some UnicodeEncodeError, emit (Call_write name) (emit (Call_open_append name) w))
      else (None,
            (emit (Call_write name) (emit (Call_open_append name) w))
              \<lparr>files := (files w)(name := files w name @ text)\<rparr>))"

text \<open>One feedback button, lines 117-120 and 123-126: \<open>word\<close> is "Like" or "Dislike".\<close>

definition feedback_button ::
  "bool \<Rightarrow> string \<Rightarrow> string \<Rightarrow> ('i, 'm, 'f) world \<Rightarrow> error option \<times> ('i, 'm, 'f) world" where
  "feedback_button clicked word new_filename w =
     (if clicked
      then (case append_file ''feedback.txt'' (word @ '' for '' @ new_filename @ [newline]) w of
              (Some e, w1) \<Rightarrow> (Some e, w1)
            | (None, w1) \<Rightarrow> (None, emit (Success ''Thank you for your feedback!'') w1))
      else (None, w))"

text \<open>Lines 115-126.\<close>

definition feedback_section ::
  "inputs \<Rightarrow> ('i, 'm, 'f) world \<Rightarrow> error option \<times> ('i, 'm, 'f) world" where
  "feedback_section inp w =
     (case ss_new_filename (session w) of
        None \<Rightarrow> (None, w)
      | Some new_filename \<Rightarrow>
          (case feedback_button (like_clicked inp) ''Like'' new_filename w of
             (Some e, w1) \<Rightarrow> (Some e, w1)
           | (None, w1) \<Rightarrow> feedback_button (dislike_clicked inp) ''Dislike'' new_filename w1))"

text \<open>Line 132: the text written for a comment.\<close>

definition comment_record :: "datetime \<Rightarrow> string \<Rightarrow> string" where
  "comment_record now comment = str_datetime now @ '': '' @ comment @ [newline]"

text \<open>Lines 128-133.\<close>

definition comment_section ::
  "inputs \<Rightarrow> ('i, 'm, 'f) world \<Rightarrow> error option \<times> ('i, 'm, 'f) world" where
  "comment_section inp w =
     (if submit_clicked inp
      then (case append_file ''user_comments.txt'' (comment_record (clock inp) (comment_text inp)) w of
              (Some e, w1) \<Rightarrow> (Some e, w1)
            | (None, w1) \<Rightarrow> (None, emit (Success ''Thank you for your comment!'') w1))
      else (None, w))"

text \<open>Lines 106-133: the "Connect to Us" page.\<close>

definition connect_page ::
  "inputs \<Rightarrow> ('i, 'm, 'f) world \<Rightarrow> error option \<times> ('i, 'm, 'f) world" where
  "connect_page inp w =
     (case feedback_section inp
             (emit (Write ''Did you find the output useful?'')
               (emit (Subheader ''Feedback'')
                 (emit (Write ''We'd love to hear from you!'')
                   (emit (Title ''Connect to Us'') w)))) of
        (Some e, w1) \<Rightarrow> (Some e, w1)
      | (None, w1) \<Rightarrow> comment_section inp w1)"

text \<open>
  Lines 37-41 and 106: one run of the script. The result is the exception that left the
  script, if any, and the world as the run left it.
\<close>

definition script ::
  "('i, 't, 'm, 'f) libs \<Rightarrow> inputs \<Rightarrow> ('i, 'm, 'f) world \<Rightarrow> error option \<times> ('i, 'm, 'f) world" where
  "script L inp w =
     (let w1 = emit (Sidebar_title ''Navigation'') w;
          page = sidebar_radio nav_options (radio_choice inp)
      in if page = ''Image Classifier'' then classifier_page L inp w1
         else if page = ''Connect to Us'' then connect_page inp w1
         else (None, w1))"

text \<open>A session: the script runs again on every interaction, on the world the last run left.\<close>

fun session_runs ::
  "('i, 't, 'm, 'f) libs \<Rightarrow> inputs list \<Rightarrow> ('i, 'm, 'f) world \<Rightarrow> ('i, 'm, 'f) world" where
  "session_runs L [] w = w"
| "session_runs L (inp # inps) w = session_runs L inps (snd (script L inp w))"

subsection \<open>A small environment for worked examples\<close>

text \<open>
  A toy codec of two formats stands in for the image library in the examples: a file is
  three characters naming the format, one character of encoder setting, then the pixels.
  Opening keeps the format and the pixels; saving writes the encoder's own default setting.
  The toy network knows seven categories.
\<close>

type_synonym demo_image = "string \<times> string"

definition demo_open :: "bytes \<Rightarrow> error + demo_image" where
  "demo_open b =
     (if 4 \<le> length b \<and> take 3 b = ''JPG'' then Inr (''JPEG'', drop 4 b)
      else if 4 \<le> length b \<and> take 3 b = ''PNG'' then Inr (''PNG'', drop 4 b)
      else Inl UnidentifiedImageError)"

definition demo_save :: "demo_image \<Rightarrow> string \<Rightarrow> error + bytes" where
  "demo_save img fmt =
     (if fmt = ''JPEG'' then Inr (''JPG7'' @ snd img)
      else if fmt = ''PNG'' then Inr (''PNG0'' @ snd img)
      else Inl (LibraryError ''unknown format''))"

definition demo_probs :: "real list" where
  "demo_probs = [1/10, 1/20, 3/10, 1/5, 3/20, 3/25, 2/25]"

definition demo_categories :: "string list" where
  "demo_categories = [''tench'', ''goldfish'', ''tabby'', ''tiger cat'', ''lynx'', ''beagle'', ''hen'']"

text \<open>
  The toy uploader compares types with letter case set aside, and raises for a file of
  another type.
\<close>

definition demo_uploader :: "string list \<Rightarrow> upload option \<Rightarrow> error + upload option" where
  "demo_uploader types offered =
     (case offered of
        None \<Rightarrow> Inr None
      | Some u \<Rightarrow>
          if List.member types (lower (up_type u)) then Inr (Some u)
          else Inl StreamlitAPIException)"

definition demo_libs :: "(demo_image, nat list, unit, nat) libs" where
  "demo_libs =
     \<lparr>file_uploader = demo_uploader,
      image_open = demo_open,
      image_format = fst,
      image_save = demo_save,
      resnet50 = Inr (),
      preprocess_func = (\<lambda>img. Inr (map of_char (snd img))),
      softmax_out = (\<lambda>model x. Inr demo_probs),
      ig_attribute = (\<lambda>model x target. Inr target),
      categories = demo_categories\<rparr>"

definition empty_session :: "(demo_image, nat) session_state" where
  "empty_session =
     \<lparr>ss_img = None, ss_probs = None, ss_idxs = None, ss_feature_imp = None,
      ss_new_filename = None, ss_img_byte_arr = None\<rparr>"

definition demo_world :: "(demo_image, unit, nat) world" where
  "demo_world =
     \<lparr>session = empty_session, model_cache = None, files = (\<lambda>name. []),
      writable = (\<lambda>name. True),
      encoding = (\<lambda>text. False),
      trace = []\<rparr>"

definition demo_clock :: datetime where
  "demo_clock =
     \<lparr>year = 2024, month = 3, day = 9, hour = 14, minute = 5, second = 7, microsecond = 123456\<rparr>"

definition demo_inputs :: inputs where
  "demo_inputs =
     \<lparr>radio_choice = 0, uploaded = None, like_clicked = False, dislike_clicked = False,
      comment_text = [], submit_clicked = False, clock = demo_clock\<rparr>"

definition jpeg_upload :: upload where
  "jpeg_upload = \<lparr>up_type = ''jpg'', up_content = ''JPG9abc''\<rparr>"

text \<open>
  Some runs: an upload on the classifier page; then, in the world that run leaves, a Like,
  a comment, and a comment of two lines on the other page.
\<close>

definition gif_upload :: upload where
  "gif_upload = \<lparr>up_type = ''gif'', up_content = ''GIF0abc''\<rparr>"

definition gif_inputs :: inputs where
  "gif_inputs = demo_inputs\<lparr>uploaded := Some gif_upload\<rparr>"

definition capital_upload :: upload where
  "capital_upload = \<lparr>up_type = ''JPG'', up_content = ''JPG9abc''\<rparr>"

definition capital_inputs :: inputs where
  "capital_inputs = demo_inputs\<lparr>uploaded := Some capital_upload\<rparr>"

definition bad_upload :: upload where
  "bad_upload = \<lparr>up_type = ''png'', up_content = ''oops''\<rparr>"

definition bad_upload_inputs :: inputs where
  "bad_upload_inputs = demo_inputs\<lparr>uploaded := Some bad_upload\<rparr>"

definition no_weights_libs :: "(demo_image, nat list, unit, nat) libs" where
  "no_weights_libs = demo_libs\<lparr>resnet50 := Inl ModelLoadError\<rparr>"

definition upload_inputs :: inputs where
  "upload_inputs = demo_inputs\<lparr>uploaded := Some jpeg_upload\<rparr>"

definition classified_world :: "(demo_image, unit, nat) world" where
  "classified_world = snd (script demo_libs upload_inputs demo_world)"

definition like_inputs :: inputs where
  "like_inputs = demo_inputs\<lparr>radio_choice := 1, like_clicked := True\<rparr>"

definition comment_inputs :: inputs where
  "comment_inputs = demo_inputs\<lparr>radio_choice := 1, submit_clicked := True, comment_text := ''nice''\<rparr>"



text \<open>
  Libraries of which one step fails, and a file name and a comment with a character outside
  ASCII (the bytes of an e with an acute accent in UTF-8), which the encoding of the example
  world cannot encode.
\<close>

definition no_preprocess_libs :: "(demo_image, nat list, unit, nat) libs" where
  "no_preprocess_libs = demo_libs\<lparr>preprocess_func := (\<lambda>img. Inl (LibraryError ''preprocess''))\<rparr>"

definition no_forward_libs :: "(demo_image, nat list, unit, nat) libs" where
  "no_forward_libs = demo_libs\<lparr>softmax_out := (\<lambda>model x. Inl (LibraryError ''forward''))\<rparr>"

definition no_outputs_libs :: "(demo_image, nat list, unit, nat) libs" where
  "no_outputs_libs = demo_libs\<lparr>softmax_out := (\<lambda>model x. Inr [])\<rparr>"

definition no_attribution_libs :: "(demo_image, nat list, unit, nat) libs" where
  "no_attribution_libs = demo_libs\<lparr>ig_attribute := (\<lambda>model x t. Inl (LibraryError ''attribute''))\<rparr>"

definition few_categories_libs :: "(demo_image, nat list, unit, nat) libs" where
  "few_categories_libs = demo_libs\<lparr>categories := [''tench'', ''goldfish'']\<rparr>"

definition no_save_libs :: "(demo_image, nat list, unit, nat) libs" where
  "no_save_libs = demo_libs\<lparr>image_save := (\<lambda>img fmt. Inl (LibraryError ''save''))\<rparr>"

definition accent :: string where
  "accent = ''caf'' @ [CHR 0xC3, CHR 0xA9]"

definition accent_world :: "(demo_image, unit, nat) world" where
  "accent_world =
     classified_world\<lparr>session := (session classified_world)
                         \<lparr>ss_new_filename := Some (accent @ ''.jpeg'')\<rparr>\<rparr>"

definition dislike_inputs :: inputs where
  "dislike_inputs = demo_inputs\<lparr>radio_choice := 1, dislike_clicked := True\<rparr>"

definition accent_inputs :: inputs where
  "accent_inputs = demo_inputs\<lparr>radio_choice := 1, submit_clicked := True, comment_text := accent\<rparr>"

subsection \<open>What one run adds\<close>

text \<open>The events of one run: what the run appended to the trace it started from.\<close>

definition run_events ::
  "('i, 't, 'm, 'f) libs \<Rightarrow> inputs \<Rightarrow> ('i, 'm, 'f) world \<Rightarrow> ('i, 'f) event list" where
  "run_events L inp w = drop (length (trace w)) (trace (snd (script L inp w)))"

text \<open>
  The events that belong to classification, plotting and the download, and those that
  belong to the writes of feedback and comments.
\<close>

fun classifier_event :: "('i, 'f) event \<Rightarrow> bool" where
  "classifier_event (Call_file_uploader types) = True"
| "classifier_event (Call_image_open b) = True"
| "classifier_event Call_resnet50 = True"
| "classifier_event Call_preprocess = True"
| "classifier_event Call_model = True"
| "classifier_event (Call_attribute t) = True"
| "classifier_event (Plot_top5 names probs) = True"
| "classifier_event (Plot_image img) = True"
| "classifier_event (Plot_attribution f) = True"
| "classifier_event (Call_image_save fmt) = True"
| "classifier_event (Download_button label content name mime) = True"
| "classifier_event e = False"

fun connect_event :: "('i, 'f) event \<Rightarrow> bool" where
  "connect_event (Call_open_append name) = True"
| "connect_event (Call_write name) = True"
| "connect_event (Success msg) = True"
| "connect_event e = False"

text \<open>A world in which no file can be opened for appending.\<close>

definition read_only :: "('i, 'm, 'f) world \<Rightarrow> ('i, 'm, 'f) world" where
  "read_only w = w\<lparr>writable := (\<lambda>name. False)\<rparr>"



text \<open>
  The image a run works on (lines 44-51): the file that the uploader hands over, opened,
  or else the one remembered in the session state; none when there is neither, or the
  uploader raises, or the upload cannot be opened.
\<close>

definition run_image :: "('i, 't, 'm, 'f) libs \<Rightarrow> inputs \<Rightarrow> ('i, 'm, 'f) world \<Rightarrow> 'i option" where
  "run_image L inp w =
     (case file_uploader L upload_types (uploaded inp) of
        Inl e \<Rightarrow> None
      | Inr None \<Rightarrow> ss_img (session w)
      | Inr (Some u) \<Rightarrow>
          (case image_open L (up_content u) of Inl e \<Rightarrow> None | Inr img \<Rightarrow> Some img))"

text \<open>
  The network a run uses: the cached one, or else the one that \<open>load_model\<close> builds.
\<close>

definition run_model :: "('i, 't, 'm, 'f) libs \<Rightarrow> ('i, 'm, 'f) world \<Rightarrow> 'm option" where
  "run_model L w =
     (case model_cache w of
        Some m \<Rightarrow> Some m
      | None \<Rightarrow> (case resnet50 L of Inl e \<Rightarrow> None | Inr m \<Rightarrow> Some m))"

text \<open>
  The index of the top-1 prediction for an image: the first of the indices that
  \<open>make_prediction\<close> returns for the softmax outputs of the network on the preprocessed image.
\<close>

definition top1_index :: "('i, 't, 'm, 'f) libs \<Rightarrow> 'm \<Rightarrow> 'i \<Rightarrow> nat option" where
  "top1_index L model img =
     (case preprocess_func L img of
        Inl e \<Rightarrow> None
      | Inr x \<Rightarrow>
          (case softmax_out L model x of
             Inl e \<Rightarrow> None
           | Inr probs \<Rightarrow> (case snd (top_five probs) of [] \<Rightarrow> None | t # rest \<Rightarrow> Some t)))"

text \<open>
  The events that classifying a given image with a given network may add: no file is opened
  for appending, no upload is opened, and attribution is asked for the top-1 index only.
\<close>

fun classify_event :: "('i, 't, 'm, 'f) libs \<Rightarrow> 'm option \<Rightarrow> 'i \<Rightarrow> ('i, 'f) event \<Rightarrow> bool" where
  "classify_event L mo img (Call_attribute t) =
     (case mo of None \<Rightarrow> False | Some model \<Rightarrow> top1_index L model img = Some t)"
| "classify_event L mo img (Call_image_open b) = False"
| "classify_event L mo img (Call_file_uploader types) = False"
| "classify_event L mo img (Call_open_append name) = False"
| "classify_event L mo img (Call_write name) = False"
| "classify_event L mo img (Success msg) = False"
| "classify_event L mo img (Sidebar_title s) = False"
| "classify_event L mo img (Title s) = False"
| "classify_event L mo img (Write s) = False"
| "classify_event L mo img (Subheader s) = False"
| "classify_event L mo img e = True"

text \<open>
  A run ends at a call with an exception: the exception leaves the script, the call is the
  last event of the run, and the run made it once.
\<close>

definition ends_at ::
  "('i, 't, 'm, 'f) libs \<Rightarrow> inputs \<Rightarrow> ('i, 'm, 'f) world \<Rightarrow> error \<Rightarrow> ('i, 'f) event \<Rightarrow> bool" where
  "ends_at L inp w e c =
     (fst (script L inp w) = Some e
      \<and> run_events L inp w \<noteq> [] \<and> last (run_events L inp w) = c
      \<and> count_list (run_events L inp w) c = 1)"

text \<open>
  Whether lines 115-126 go through in a run of the "Connect to Us" page: with a stored
  file name and Like or Dislike pressed, feedback.txt must open for appending and the
  encoding must be able to encode the file name; the words around it are ASCII.
\<close>

definition feedback_succeeds :: "inputs \<Rightarrow> ('i, 'm, 'f) world \<Rightarrow> bool" where
  "feedback_succeeds inp w =
     (case ss_new_filename (session w) of
        None \<Rightarrow> True
      | Some fn \<Rightarrow>
          if like_clicked inp \<or> dislike_clicked inp
          then writable w ''feedback.txt'' \<and> encodable w fn
          else True)"

section \<open>Properties\<close>

subsection \<open>The ranking\<close>


lemma argsort_length: "length (argsort xs) = length xs"
  by (simp add: argsort_def)

lemma argsort_set: "set (argsort xs) = {0..<length xs}"
  by (simp add: argsort_def)

lemma argsort_distinct: "distinct (argsort xs)"
  by (simp add: argsort_def)

lemma argsort_sorted: "sorted (map (\<lambda>i. xs ! i) (argsort xs))"
  by (simp add: argsort_def)

lemma last_five_length: "length (last_five xs) = min 5 (length xs)"
  by (simp add: last_five_def)

lemma last_five_split: "xs = take (length xs - 5) xs @ last_five xs"
  by (simp add: last_five_def)

lemma top_five_idxs_length: "length (snd (top_five probs)) = min 5 (length probs)"
  by (simp add: top_five_def last_five_length argsort_length)

lemma top_five_idxs_distinct: "distinct (snd (top_five probs))"
  by (simp add: top_five_def last_five_def argsort_distinct)

lemma top_five_idxs_range: "set (snd (top_five probs)) \<subseteq> {0..<length probs}"
proof -
  have "set (last_five (argsort probs)) \<subseteq> set (argsort probs)"
    unfolding last_five_def by (rule set_drop_subset)
  then show ?thesis by (simp add: top_five_def argsort_set)
qed

lemma top_five_prob: "fst (top_five probs) = map (\<lambda>i. probs ! i) (snd (top_five probs))"
  by (simp add: top_five_def)

lemma top_five_descending: "sorted (rev (fst (top_five probs)))"
proof -
  have "sorted (drop (length probs - 5) (map (\<lambda>i. probs ! i) (argsort probs)))"
    using argsort_sorted by (rule sorted_wrt_drop)
  then show ?thesis
    by (simp add: top_five_def last_five_def rev_map argsort_length drop_map)
qed

lemma top_five_highest:
  assumes j: "j < length probs" and out: "j \<notin> set (snd (top_five probs))"
    and p: "p \<in> set (fst (top_five probs))"
  shows "probs ! j \<le> p"
proof -
  let ?a = "argsort probs"
  let ?k = "length ?a - 5"
  have split: "map (\<lambda>i. probs ! i) ?a = map (\<lambda>i. probs ! i) (take ?k ?a) @ map (\<lambda>i. probs ! i) (last_five ?a)"
    by (metis last_five_split map_append)
  have "j \<in> set ?a" using j by (simp add: argsort_set)
  then have "j \<in> set (take ?k ?a) \<union> set (last_five ?a)"
    by (metis last_five_split set_append)
  moreover have "j \<notin> set (last_five ?a)" using out by (simp add: top_five_def)
  ultimately have "probs ! j \<in> set (map (\<lambda>i. probs ! i) (take ?k ?a))" by auto
  moreover have "p \<in> set (map (\<lambda>i. probs ! i) (last_five ?a))" using p by (simp add: top_five_def)
  moreover have "sorted (map (\<lambda>i. probs ! i) (take ?k ?a) @ map (\<lambda>i. probs ! i) (last_five ?a))"
    using argsort_sorted [of probs] split by simp
  ultimately show ?thesis unfolding sorted_append by blast
qed


lemma demo_top_five: "top_five demo_probs = ([3/10, 1/5, 3/20, 3/25, 1/10], [2, 3, 4, 5, 0])"
  by (simp add: top_five_def argsort_def last_five_def demo_probs_def upt_conv_Cons)

subsection \<open>The parts of a run, one by one\<close>

lemma trace_emit: "trace (emit e w) = trace w @ [e]" by (simp add: emit_def)
lemma session_emit: "session (emit e w) = session w" by (simp add: emit_def)
lemma files_emit: "files (emit e w) = files w" by (simp add: emit_def)
lemma writable_emit: "writable (emit e w) = writable w" by (simp add: emit_def)
lemma cache_emit: "model_cache (emit e w) = model_cache w" by (simp add: emit_def)
lemma encoding_emit: "encoding (emit e w) = encoding w" by (simp add: emit_def)
lemma encodable_emit: "encodable (emit e w) = encodable w"
  by (simp add: encodable_def fun_eq_iff encoding_emit)

lemma encodable_files: "encodable (w\<lparr>files := g\<rparr>) = encodable w"
  by (simp add: encodable_def fun_eq_iff)

lemmas emit_simps = trace_emit session_emit files_emit writable_emit cache_emit encoding_emit
  encodable_emit encodable_files

lemmas run_splits = option.splits sum.splits prod.splits list.splits if_splits

text \<open>ASCII text around a text does not change whether the text can be encoded.\<close>

lemma encodable_affix:
  assumes "list_all (\<lambda>c. \<not> digit7 c) pre" and "list_all (\<lambda>c. \<not> digit7 c) post"
  shows "encodable w (pre @ text @ post) = encodable w text"
proof -
  have "filter digit7 pre = []" "filter digit7 post = []"
    using assms by (simp_all add: filter_empty_conv list_all_iff)
  then show ?thesis using assms by (simp add: encodable_def)
qed

lemma encodable_feedback_line:
  "encodable w (''Like for '' @ fn @ [newline]) = encodable w fn"
  "encodable w (''Dislike for '' @ fn @ [newline]) = encodable w fn"
  by (rule encodable_affix; simp add: newline_def)+

lemma digit_is_ascii: "is_digit c \<Longrightarrow> \<not> digit7 c"
  by (cases c) (auto simp: is_digit_def)

text \<open>Lines 55-62, every outcome.\<close>

lemma predict_and_interpret_frame:
  assumes "predict_and_interpret L img w = (r, w')"
  shows "files w' = files w \<and> writable w' = writable w
         \<and> ss_new_filename (session w') = ss_new_filename (session w)
         \<and> ss_img (session w') = ss_img (session w)
         \<and> (\<exists>evs. trace w' = trace w @ evs \<and> list_all (classify_event L (run_model L w) img) evs)"
  using assms
  by (auto simp: predict_and_interpret_def load_model_def make_prediction_def
        interpret_prediction_def emit_simps run_model_def top1_index_def
      split: run_splits)


lemma render_plots_frame:
  assumes "render_plots L img probs idxs f w = (r, w')"
  shows "files w' = files w \<and> writable w' = writable w \<and> session w' = session w
         \<and> model_cache w' = model_cache w
         \<and> (\<exists>evs. trace w' = trace w @ evs \<and> list_all (classify_event L mo img) evs)"
  using assms
  by (auto simp: render_plots_def emit_simps split: run_splits)

lemma offer_download_frame:
  assumes "offer_download L img fmt idxs w = (r, w')"
  shows "files w' = files w \<and> writable w' = writable w
         \<and> ss_img (session w') = ss_img (session w)
         \<and> (\<exists>evs. trace w' = trace w @ evs \<and> list_all (classify_event L mo img) evs)"
  using assms
  by (auto simp: offer_download_def emit_simps Let_def split: run_splits)




text \<open>Lines 53-104, every outcome.\<close>

lemma classify_image_frame:
  assumes run: "classify_image L img w = (r, w')"
  shows "files w' = files w \<and> writable w' = writable w
         \<and> ss_img (session w') = ss_img (session w)
         \<and> (\<exists>evs. trace w' = trace w @ evs \<and> list_all (classify_event L (run_model L w) img) evs)"
proof -
  obtain r1 w1 where p: "predict_and_interpret L img w = (r1, w1)"
    by (cases "predict_and_interpret L img w") auto
  note f1 = predict_and_interpret_frame [OF p]
  show ?thesis
  proof (cases r1)
    case (Inl e)
    then have "w' = w1" using run p by (simp add: classify_image_def)
    then show ?thesis using f1 by simp
  next
    case (Inr res)
    obtain probs idxs f where res: "res = (probs, idxs, f)" by (cases res) auto
    obtain r2 w2 where q: "render_plots L img probs idxs f w1 = (r2, w2)"
      by (cases "render_plots L img probs idxs f w1") auto
    note f2 = render_plots_frame [OF q, of "run_model L w"]
    show ?thesis
    proof (cases r2)
      case (Some e)
      then have "w' = w2" using run p q Inr res by (simp add: classify_image_def)
      then show ?thesis using f1 f2 by auto
    next
      case None
      then have d: "offer_download L img (lower (image_format L img)) idxs w2 = (r, w')"
        using run p q Inr res by (simp add: classify_image_def)
      note f3 = offer_download_frame [OF d, of "run_model L w"]
      show ?thesis using f1 f2 f3 by auto
    qed
  qed
qed


lemma classify_event_not_connect: "classify_event L mo img e \<Longrightarrow> \<not> connect_event e"
  by (cases e) auto

lemma classify_event_not_open: "classify_event L mo img e \<Longrightarrow> e \<noteq> Call_image_open b"
  by (cases e) auto

lemma classify_event_attribute:
  "classify_event L mo img (Call_attribute t) \<Longrightarrow>
     \<exists>model. mo = Some model \<and> top1_index L model img = Some t"
  by (cases mo) auto

lemma run_model_cong: "model_cache w1 = model_cache w \<Longrightarrow> run_model L w1 = run_model L w"
  by (simp add: run_model_def)

text \<open>Lines 47-51, every outcome.\<close>

lemma current_image_frame:
  assumes "current_image L upl w = (r, w')"
  shows "files w' = files w \<and> writable w' = writable w \<and> model_cache w' = model_cache w
         \<and> trace w' = trace w @ (case upl of None \<Rightarrow> [] | Some u \<Rightarrow> [Call_image_open (up_content u)])
         \<and> r = (case upl of Some u \<Rightarrow> image_open L (up_content u)
                 | None \<Rightarrow> (case ss_img (session w) of Some img \<Rightarrow> Inr img | None \<Rightarrow> Inl AttributeError))"
  using assms
  by (auto simp: current_image_def emit_simps split: run_splits)

text \<open>Lines 42-104, every outcome.\<close>

lemma classifier_page_frame:
  fixes L :: "('i, 't, 'm, 'f) libs"
  assumes run: "classifier_page L inp w = (r, w')"
  shows "files w' = files w \<and> writable w' = writable w
         \<and> (\<exists>evs. trace w' = trace w @ evs \<and> (\<forall>e\<in>set evs. \<not> connect_event e)
              \<and> (\<forall>b. Call_image_open b \<in> set evs \<longrightarrow>
                    (\<exists>u. file_uploader L upload_types (uploaded inp) = Inr (Some u)
                          \<and> up_content u = b))
              \<and> (\<forall>t. Call_attribute t \<in> set evs \<longrightarrow>
                    (\<exists>img model. run_image L inp w = Some img \<and> run_model L w = Some model
                          \<and> top1_index L model img = Some t)))"
proof -
  let ?F = "\<lambda>w'. files w' = files w \<and> writable w' = writable w"
  let ?T = "\<lambda>w' evs. trace w' = trace w @ evs"
  let ?P = "\<lambda>evs. (\<forall>e\<in>set evs. \<not> connect_event e)
              \<and> (\<forall>b. Call_image_open b \<in> set evs \<longrightarrow>
                    (\<exists>u. file_uploader L upload_types (uploaded inp) = Inr (Some u)
                          \<and> up_content u = b))
              \<and> (\<forall>t. Call_attribute t \<in> set evs \<longrightarrow>
                    (\<exists>img model. run_image L inp w = Some img \<and> run_model L w = Some model
                          \<and> top1_index L model img = Some t))"
  let ?title = "Title ''ResNet-50 Image Classifier'' :: ('i, 'f) event"
  let ?call = "Call_file_uploader upload_types :: ('i, 'f) event"
  let ?w1 = "emit ?call (emit ?title w)"
  let ?res = "file_uploader L upload_types (uploaded inp)"
  have P_title: "?P [?title, ?call]" by simp
  have F1: "?F ?w1" "?T ?w1 [?title, ?call]" by (simp_all add: emit_simps)
  show ?thesis
  proof (cases ?res)
    case (Inl e)
    then have "w' = ?w1" using run by (simp add: classifier_page_def Let_def)
    then show ?thesis using F1 P_title by blast
  next
    case res: (Inr upl)
    show ?thesis
    proof (cases "upl \<noteq> None \<or> ss_img (session ?w1) \<noteq> None")
      case False
      then have "w' = ?w1" using run res by (simp add: classifier_page_def Let_def)
      then show ?thesis using F1 P_title by blast
    next
      case True
      obtain r2 w2 where c: "current_image L upl ?w1 = (r2, w2)"
        by (cases "current_image L upl ?w1") auto
      note f = current_image_frame [OF c]
      define opened :: "('i, 'f) event list" where
        "opened = (case upl of None \<Rightarrow> [] | Some u \<Rightarrow> [Call_image_open (up_content u)])"
      have F2: "?F w2" using f by (simp add: emit_simps)
      have T2: "trace w2 = trace w @ ?title # ?call # opened"
        using f by (simp add: emit_simps opened_def)
      have cache2: "model_cache w2 = model_cache w" using f by (simp add: emit_simps)
      have P_opened: "?P (?title # ?call # opened)"
      proof (cases upl)
        case None
        then show ?thesis by (simp add: opened_def)
      next
        case (Some u)
        then show ?thesis using res by (simp add: opened_def)
      qed
      show ?thesis
      proof (cases r2)
        case (Inl e)
        then have "w' = w2" using run c True res by (simp add: classifier_page_def Let_def)
        then show ?thesis using F2 T2 P_opened by blast
      next
        case (Inr img)
        then have k: "classify_image L img w2 = (r, w')"
          using run c True res by (simp add: classifier_page_def Let_def)
        from classify_image_frame [OF k] obtain evs where
          g: "files w' = files w2" "writable w' = writable w2" "trace w' = trace w2 @ evs"
             "list_all (classify_event L (run_model L w2) img) evs"
          by blast
        have rm: "run_model L w2 = run_model L w"
          using cache2 by (rule run_model_cong)
        have r2: "r2 = (case upl of Some u \<Rightarrow> image_open L (up_content u)
                   | None \<Rightarrow> (case ss_img (session w) of Some img \<Rightarrow> Inr img | None \<Rightarrow> Inl AttributeError))"
          using f by (simp add: emit_simps split: option.splits)
        have ri: "run_image L inp w = Some img"
        proof (cases upl)
          case None
          then show ?thesis using r2 Inr res by (simp add: run_image_def split: option.splits)
        next
          case (Some u)
          then have "image_open L (up_content u) = Inr img" using r2 Inr by simp
          then show ?thesis using Some res by (simp add: run_image_def)
        qed
        have ev: "\<forall>e \<in> set evs. classify_event L (run_model L w) img e"
          using g(4) rm by (simp add: list_all_iff)
        have e1: "\<forall>e \<in> set evs. \<not> connect_event e"
        proof
          fix e assume "e \<in> set evs"
          with ev have "classify_event L (run_model L w) img e" by (rule bspec)
          then show "\<not> connect_event e" by (rule classify_event_not_connect)
        qed
        have e2: "\<forall>b. Call_image_open b \<notin> set evs"
        proof (intro allI notI)
          fix b assume "Call_image_open b \<in> set evs"
          with ev have "classify_event L (run_model L w) img (Call_image_open b)" by (rule bspec)
          then show False by simp
        qed
        have e3: "\<forall>t. Call_attribute t \<in> set evs \<longrightarrow>
                      (\<exists>img model. run_image L inp w = Some img \<and> run_model L w = Some model
                            \<and> top1_index L model img = Some t)"
        proof (intro allI impI)
          fix t assume "Call_attribute t \<in> set evs"
          with ev have "classify_event L (run_model L w) img (Call_attribute t)" by (rule bspec)
          then have "\<exists>model. run_model L w = Some model \<and> top1_index L model img = Some t"
            by (rule classify_event_attribute)
          then obtain model where "run_model L w = Some model" "top1_index L model img = Some t"
            by auto
          then show "\<exists>img model. run_image L inp w = Some img \<and> run_model L w = Some model
                            \<and> top1_index L model img = Some t"
            using ri by blast
        qed
        have P_evs: "?P evs" using e1 e2 e3 by blast
        have P_all: "?P ((?title # ?call # opened) @ evs)"
        proof (intro conjI ballI allI impI)
          fix e assume "e \<in> set ((?title # ?call # opened) @ evs)"
          then have "e \<in> set (?title # ?call # opened) \<or> e \<in> set evs" by auto
          then show "\<not> connect_event e" using P_opened P_evs by blast
        next
          fix b assume "Call_image_open b \<in> set ((?title # ?call # opened) @ evs)"
          then have "Call_image_open b \<in> set (?title # ?call # opened) \<or> Call_image_open b \<in> set evs"
            by auto
          then show "\<exists>u. file_uploader L upload_types (uploaded inp) = Inr (Some u)
                            \<and> up_content u = b"
            using P_opened P_evs by blast
        next
          fix t assume "Call_attribute t \<in> set ((?title # ?call # opened) @ evs)"
          then have "Call_attribute t \<in> set (?title # ?call # opened) \<or> Call_attribute t \<in> set evs"
            by auto
          then show "\<exists>img model. run_image L inp w = Some img \<and> run_model L w = Some model
                            \<and> top1_index L model img = Some t"
            using P_opened P_evs by blast
        qed
        have T: "?T w' ((?title # ?call # opened) @ evs)" using g(3) T2 by simp
        have F: "?F w'" using g(1,2) F2 by simp
        show ?thesis using F T P_all by blast
      qed
    qed
  qed
qed

text \<open>Lines 119-126 and 131-132, every outcome of one append.\<close>

lemma append_file_frame:
  assumes "append_file name text w = (r, w')"
  shows "session w' = session w \<and> model_cache w' = model_cache w \<and> writable w' = writable w
         \<and> encodable w' = encodable w
         \<and> (r = None \<longrightarrow> writable w name \<and> encodable w text
               \<and> trace w' = trace w @ [Call_open_append name, Call_write name]
               \<and> files w' = (files w)(name := files w name @ text))
         \<and> (r \<noteq> None \<longrightarrow> files w' = files w
               \<and> (\<not> writable w name \<and> r = Some OSError
                       \<and> trace w' = trace w @ [Call_open_append name]
                   \<or> writable w name \<and> \<not> encodable w text \<and> r = Some UnicodeEncodeError
                       \<and> trace w' = trace w @ [Call_open_append name, Call_write name]))"
  using assms by (auto simp: append_file_def emit_simps split: if_splits)

lemma feedback_button_frame:
  assumes "feedback_button clicked word fn w = (r, w')"
  shows "session w' = session w \<and> model_cache w' = model_cache w \<and> writable w' = writable w
         \<and> (\<exists>evs. trace w' = trace w @ evs \<and> (\<forall>e\<in>set evs. \<not> classifier_event e))
         \<and> (\<forall>name. name \<noteq> ''feedback.txt'' \<longrightarrow> files w' name = files w name)
         \<and> (files w' ''feedback.txt'' = files w ''feedback.txt''
             \<or> clicked \<and> r = None \<and> writable w ''feedback.txt''
                 \<and> files w' ''feedback.txt''
                     = files w ''feedback.txt'' @ word @ '' for '' @ fn @ [newline])"
  using assms
  by (auto simp: feedback_button_def append_file_def emit_simps split: if_splits)

lemma feedback_section_frame:
  assumes run: "feedback_section inp w = (r, w')"
  shows "session w' = session w \<and> model_cache w' = model_cache w \<and> writable w' = writable w
         \<and> (\<exists>evs. trace w' = trace w @ evs \<and> (\<forall>e\<in>set evs. \<not> classifier_event e))
         \<and> (\<forall>name. name \<noteq> ''feedback.txt'' \<longrightarrow> files w' name = files w name)
         \<and> (files w' ''feedback.txt'' \<noteq> files w ''feedback.txt'' \<longrightarrow>
              (\<exists>fn. ss_new_filename (session w) = Some fn
                 \<and> (like_clicked inp \<or> dislike_clicked inp) \<and> writable w ''feedback.txt''
                 \<and> files w' ''feedback.txt'' = files w ''feedback.txt''
                     @ (if like_clicked inp then ''Like for '' @ fn @ [newline] else [])
                     @ (if dislike_clicked inp then ''Dislike for '' @ fn @ [newline] else [])))"
proof (cases "ss_new_filename (session w)")
  case None
  then have "w' = w" using run by (simp add: feedback_section_def)
  then show ?thesis by simp
next
  case (Some fn)
  obtain r1 w1 where a: "feedback_button (like_clicked inp) ''Like'' fn w = (r1, w1)"
    by (cases "feedback_button (like_clicked inp) ''Like'' fn w") auto
  note f1 = feedback_button_frame [OF a]
  show ?thesis
  proof (cases r1)
    case (Some e)
    then have eq: "w' = w1" "r = Some e" using run a \<open>ss_new_filename (session w) = Some fn\<close>
      by (simp_all add: feedback_section_def)
    show ?thesis using f1 eq Some \<open>ss_new_filename (session w) = Some fn\<close> by auto
  next
    case None
    then have b: "feedback_button (dislike_clicked inp) ''Dislike'' fn w1 = (r, w')"
      using run a \<open>ss_new_filename (session w) = Some fn\<close> by (simp add: feedback_section_def)
    note f2 = feedback_button_frame [OF b]
    have r_dis: "dislike_clicked inp \<and> r \<noteq> None \<longrightarrow> files w' = files w1"
      using b by (auto simp: feedback_button_def append_file_def emit_simps split: if_splits)
    from f1 obtain evs1 where t1: "trace w1 = trace w @ evs1" "\<forall>e\<in>set evs1. \<not> classifier_event e"
      by blast
    from f2 obtain evs2 where t2: "trace w' = trace w1 @ evs2" "\<forall>e\<in>set evs2. \<not> classifier_event e"
      by blast
    have tr: "trace w' = trace w @ (evs1 @ evs2) \<and> (\<forall>e\<in>set (evs1 @ evs2). \<not> classifier_event e)"
      using t1 t2 by auto
    have fr: "session w' = session w \<and> model_cache w' = model_cache w \<and> writable w' = writable w
         \<and> (\<forall>name. name \<noteq> ''feedback.txt'' \<longrightarrow> files w' name = files w name)"
      using f1 f2 by simp
    have fb: "files w' ''feedback.txt'' \<noteq> files w ''feedback.txt'' \<longrightarrow>
              (\<exists>fn. ss_new_filename (session w) = Some fn
                 \<and> (like_clicked inp \<or> dislike_clicked inp) \<and> writable w ''feedback.txt''
                 \<and> files w' ''feedback.txt'' = files w ''feedback.txt''
                     @ (if like_clicked inp then ''Like for '' @ fn @ [newline] else [])
                     @ (if dislike_clicked inp then ''Dislike for '' @ fn @ [newline] else []))"
      using a b \<open>ss_new_filename (session w) = Some fn\<close> None
      by (auto simp: feedback_button_def append_file_def emit_simps encodable_def newline_def
            split: if_splits prod.splits option.splits)
    show ?thesis using tr fr fb by blast
  qed
qed


lemma comment_section_frame:
  assumes "comment_section inp w = (r, w')"
  shows "session w' = session w \<and> model_cache w' = model_cache w \<and> writable w' = writable w
         \<and> (\<exists>evs. trace w' = trace w @ evs \<and> (\<forall>e\<in>set evs. \<not> classifier_event e))
         \<and> (\<forall>name. name \<noteq> ''user_comments.txt'' \<longrightarrow> files w' name = files w name)
         \<and> (files w' ''user_comments.txt'' \<noteq> files w ''user_comments.txt'' \<longrightarrow>
               submit_clicked inp \<and> writable w ''user_comments.txt'')
         \<and> (submit_clicked inp \<and> r = None \<longrightarrow>
               files w' ''user_comments.txt''
                 = files w ''user_comments.txt'' @ comment_record (clock inp) (comment_text inp))"
  using assms
  by (auto simp: comment_section_def append_file_def emit_simps split: if_splits)

text \<open>Lines 106-133, every outcome.\<close>

lemma connect_page_frame:
  fixes w :: "('i, 'm, 'f) world"
  assumes run: "connect_page inp w = (r, w')"
  shows "session w' = session w \<and> model_cache w' = model_cache w \<and> writable w' = writable w
         \<and> (\<exists>evs. trace w' = trace w @ evs \<and> (\<forall>e\<in>set evs. \<not> classifier_event e))
         \<and> (\<forall>name. name \<noteq> ''feedback.txt'' \<longrightarrow> name \<noteq> ''user_comments.txt''
               \<longrightarrow> files w' name = files w name)
         \<and> (files w' ''feedback.txt'' \<noteq> files w ''feedback.txt'' \<longrightarrow>
              (\<exists>fn. ss_new_filename (session w) = Some fn
                 \<and> (like_clicked inp \<or> dislike_clicked inp) \<and> writable w ''feedback.txt''
                 \<and> files w' ''feedback.txt'' = files w ''feedback.txt''
                     @ (if like_clicked inp then ''Like for '' @ fn @ [newline] else [])
                     @ (if dislike_clicked inp then ''Dislike for '' @ fn @ [newline] else [])))
         \<and> (files w' ''user_comments.txt'' \<noteq> files w ''user_comments.txt'' \<longrightarrow>
               submit_clicked inp \<and> writable w ''user_comments.txt'')
         \<and> (submit_clicked inp \<and> r = None \<longrightarrow>
               files w' ''user_comments.txt''
                 = files w ''user_comments.txt'' @ comment_record (clock inp) (comment_text inp))"
proof -
  let ?w0 = "emit (Write ''Did you find the output useful?'')
               (emit (Subheader ''Feedback'')
                 (emit (Write ''We'd love to hear from you!'')
                   (emit (Title ''Connect to Us'') w)))"
  let ?head = "[Title ''Connect to Us'', Write ''We'd love to hear from you!'',
                Subheader ''Feedback'', Write ''Did you find the output useful?''] :: ('i, 'f) event list"
  have w0: "session ?w0 = session w" "model_cache ?w0 = model_cache w"
    "writable ?w0 = writable w" "files ?w0 = files w" "trace ?w0 = trace w @ ?head"
    by (simp_all add: emit_simps)
  obtain r1 w1 where a: "feedback_section inp ?w0 = (r1, w1)"
    by (cases "feedback_section inp ?w0") auto
  note f1 = feedback_section_frame [OF a, unfolded w0]
  from f1 obtain evs1 where t1: "trace w1 = (trace w @ ?head) @ evs1"
    "\<forall>e\<in>set evs1. \<not> classifier_event e" by blast
  have names: "''feedback.txt'' \<noteq> ''user_comments.txt''" by simp
  show ?thesis
  proof (cases r1)
    case (Some e)
    then have eq: "w' = w1" "r = Some e" using run a by (simp_all add: connect_page_def)
    have tr: "trace w' = trace w @ (?head @ evs1) \<and> (\<forall>e\<in>set (?head @ evs1). \<not> classifier_event e)"
      using t1 eq by auto
    have uc: "files w' ''user_comments.txt'' = files w ''user_comments.txt''"
      using f1 eq names by auto
    show ?thesis using f1 tr uc eq unfolding eq(1) by blast
  next
    case None
    then have b: "comment_section inp w1 = (r, w')" using run a by (simp add: connect_page_def)
    note f2 = comment_section_frame [OF b]
    from f2 obtain evs2 where t2: "trace w' = trace w1 @ evs2"
      "\<forall>e\<in>set evs2. \<not> classifier_event e" by blast
    have tr: "trace w' = trace w @ (?head @ evs1 @ evs2)
              \<and> (\<forall>e\<in>set (?head @ evs1 @ evs2). \<not> classifier_event e)"
      using t1 t2 by auto
    have fr: "session w' = session w \<and> model_cache w' = model_cache w \<and> writable w' = writable w"
      using f1 f2 by simp
    have other: "\<forall>name. name \<noteq> ''feedback.txt'' \<longrightarrow> name \<noteq> ''user_comments.txt''
               \<longrightarrow> files w' name = files w name"
      using f1 f2 by simp
    have fb1: "files w' ''feedback.txt'' = files w1 ''feedback.txt''" using f2 names by auto
    have uc1: "files w1 ''user_comments.txt'' = files w ''user_comments.txt''"
      using f1 names by auto
    have wr1: "writable w1 = writable w" using f1 by simp
    have fb: "files w' ''feedback.txt'' \<noteq> files w ''feedback.txt'' \<longrightarrow>
              (\<exists>fn. ss_new_filename (session w) = Some fn
                 \<and> (like_clicked inp \<or> dislike_clicked inp) \<and> writable w ''feedback.txt''
                 \<and> files w' ''feedback.txt'' = files w ''feedback.txt''
                     @ (if like_clicked inp then ''Like for '' @ fn @ [newline] else [])
                     @ (if dislike_clicked inp then ''Dislike for '' @ fn @ [newline] else []))"
      using f1 unfolding fb1 by blast
    have uc: "(files w' ''user_comments.txt'' \<noteq> files w ''user_comments.txt'' \<longrightarrow>
               submit_clicked inp \<and> writable w ''user_comments.txt'')
         \<and> (submit_clicked inp \<and> r = None \<longrightarrow>
               files w' ''user_comments.txt''
                 = files w ''user_comments.txt'' @ comment_record (clock inp) (comment_text inp))"
      using f2 unfolding uc1 wr1 by blast
    show ?thesis using tr fr other fb uc by blast
  qed
qed

lemma sidebar_radio_nav:
  "sidebar_radio nav_options i = (if i = 1 then ''Connect to Us'' else ''Image Classifier'')"
proof (cases "i = 0")
  case True
  then show ?thesis by (simp add: sidebar_radio_def nav_options_def)
next
  case False
  then show ?thesis by (cases "i = 1") (simp_all add: sidebar_radio_def nav_options_def)
qed

lemma script_classifier:
  "radio_choice inp \<noteq> 1 \<Longrightarrow>
     script L inp w = classifier_page L inp (emit (Sidebar_title ''Navigation'') w)"
  by (simp add: script_def sidebar_radio_nav)

lemma script_connect:
  "radio_choice inp = 1 \<Longrightarrow>
     script L inp w = connect_page inp (emit (Sidebar_title ''Navigation'') w)"
  by (simp add: script_def sidebar_radio_nav)

lemma run_image_emit: "run_image L inp (emit e w) = run_image L inp w"
  by (simp add: run_image_def emit_simps split: option.splits sum.splits)

lemma run_model_emit: "run_model L (emit e w) = run_model L w"
  by (simp add: run_model_def emit_simps)

text \<open>A run on the "Image Classifier" page.\<close>

lemma script_classifier_frame:
  fixes L :: "('i, 't, 'm, 'f) libs"
  assumes page: "radio_choice inp \<noteq> 1"
  shows "files (snd (script L inp w)) = files w
         \<and> (\<forall>e\<in>set (run_events L inp w). \<not> connect_event e)
         \<and> (\<forall>b. Call_image_open b \<in> set (run_events L inp w) \<longrightarrow>
               (\<exists>u. file_uploader L upload_types (uploaded inp) = Inr (Some u)
                     \<and> up_content u = b))
         \<and> (\<forall>t. Call_attribute t \<in> set (run_events L inp w) \<longrightarrow>
               (\<exists>img model. run_image L inp w = Some img \<and> run_model L w = Some model
                     \<and> top1_index L model img = Some t))"
proof -
  let ?w0 = "emit (Sidebar_title ''Navigation'') w"
  obtain r w' where run: "classifier_page L inp ?w0 = (r, w')"
    by (cases "classifier_page L inp ?w0") auto
  have s: "script L inp w = (r, w')" using page run by (simp add: script_classifier)
  from classifier_page_frame [OF run] obtain evs where
    f: "files w' = files ?w0" "trace w' = trace ?w0 @ evs"
       "\<forall>e\<in>set evs. \<not> connect_event e"
       "\<forall>b. Call_image_open b \<in> set evs \<longrightarrow>
               (\<exists>u. file_uploader L upload_types (uploaded inp) = Inr (Some u)
                     \<and> up_content u = b)"
       "\<forall>t. Call_attribute t \<in> set evs \<longrightarrow>
               (\<exists>img model. run_image L inp ?w0 = Some img \<and> run_model L ?w0 = Some model
                     \<and> top1_index L model img = Some t)"
    by blast
  have ev: "run_events L inp w = Sidebar_title ''Navigation'' # evs"
    using s f(2) by (simp add: run_events_def emit_simps)
  show ?thesis
    using f(1,3,4,5) unfolding ev run_image_emit run_model_emit s
    by (simp add: emit_simps)
qed

text \<open>A run on the "Connect to Us" page.\<close>

lemma script_connect_frame:
  fixes L :: "('i, 't, 'm, 'f) libs"
  assumes page: "radio_choice inp = 1"
  shows "session (snd (script L inp w)) = session w
         \<and> model_cache (snd (script L inp w)) = model_cache w
         \<and> (\<forall>e\<in>set (run_events L inp w). \<not> classifier_event e)
         \<and> (\<forall>name. name \<noteq> ''feedback.txt'' \<longrightarrow> name \<noteq> ''user_comments.txt''
               \<longrightarrow> files (snd (script L inp w)) name = files w name)
         \<and> (files (snd (script L inp w)) ''feedback.txt'' \<noteq> files w ''feedback.txt'' \<longrightarrow>
              (\<exists>fn. ss_new_filename (session w) = Some fn
                 \<and> (like_clicked inp \<or> dislike_clicked inp) \<and> writable w ''feedback.txt''
                 \<and> files (snd (script L inp w)) ''feedback.txt'' = files w ''feedback.txt''
                     @ (if like_clicked inp then ''Like for '' @ fn @ [newline] else [])
                     @ (if dislike_clicked inp then ''Dislike for '' @ fn @ [newline] else [])))
         \<and> (files (snd (script L inp w)) ''user_comments.txt'' \<noteq> files w ''user_comments.txt''
               \<longrightarrow> submit_clicked inp \<and> writable w ''user_comments.txt'')
         \<and> (submit_clicked inp \<and> fst (script L inp w) = None \<longrightarrow>
               files (snd (script L inp w)) ''user_comments.txt''
                 = files w ''user_comments.txt'' @ comment_record (clock inp) (comment_text inp))"
proof -
  let ?w0 = "emit (Sidebar_title ''Navigation'') w :: ('i, 'm, 'f) world"
  obtain r w' where run: "connect_page inp ?w0 = (r, w')"
    by (cases "connect_page inp ?w0") auto
  have s: "script L inp w = (r, w')" using page run by (simp add: script_connect)
  have w0: "session ?w0 = session w" "model_cache ?w0 = model_cache w"
    "writable ?w0 = writable w" "files ?w0 = files w"
    by (simp_all add: emit_simps)
  note f = connect_page_frame [OF run, unfolded w0]
  from f obtain evs where t: "trace w' = trace ?w0 @ evs" "\<forall>e\<in>set evs. \<not> classifier_event e"
    by blast
  have ev: "run_events L inp w = Sidebar_title ''Navigation'' # evs"
    using s t(1) by (simp add: run_events_def emit_simps)
  have evs: "\<forall>e\<in>set (run_events L inp w). \<not> classifier_event e"
    unfolding ev using t(2) by simp
  show ?thesis using f evs unfolding s by simp
qed

lemmas classifier_defs = classifier_page_def classify_image_def current_image_def
  predict_and_interpret_def load_model_def make_prediction_def interpret_prediction_def
  render_plots_def offer_download_def index_categories_def

lemmas connect_defs = connect_page_def feedback_section_def feedback_button_def
  comment_section_def append_file_def comment_record_def

lemma lower_jpg: "lower ''jpg'' = ''jpg''"
  by code_simp

lemmas demo_defs = demo_libs_def demo_world_def demo_inputs_def upload_inputs_def
  jpeg_upload_def demo_open_def demo_save_def demo_categories_def empty_session_def
  demo_uploader_def upload_types_def lower_jpg

lemma lower_JPEG: "lower ''JPEG'' = ''jpeg''"
  by code_simp

lemma upper_jpeg: "upper ''jpeg'' = ''JPEG''"
  by code_simp

lemma demo_classified:
  "script demo_libs upload_inputs demo_world =
     (None,
      \<lparr>session = \<lparr>ss_img = Some (''JPEG'', ''abc''),
                  ss_probs = Some [3/10, 1/5, 3/20, 3/25, 1/10],
                  ss_idxs = Some [2, 3, 4, 5, 0], ss_feature_imp = Some 2,
                  ss_new_filename = Some ''tabby.jpeg'',
                  ss_img_byte_arr = Some ''JPG7abc''\<rparr>,
       model_cache = Some (), files = (\<lambda>name. []), writable = (\<lambda>name. True),
       encoding = (\<lambda>text. False),
       trace = [Sidebar_title ''Navigation'', Title ''ResNet-50 Image Classifier'',
                Call_file_uploader upload_types,
                Call_image_open ''JPG9abc'', Call_resnet50, Call_preprocess, Call_model,
                Call_attribute 2,
                Plot_top5 [''tench'', ''beagle'', ''lynx'', ''tiger cat'', ''tabby'']
                  [1/10, 3/25, 3/20, 1/5, 3/10],
                Plot_image (''JPEG'', ''abc''), Plot_attribution 2,
                Call_image_save ''JPEG'',
                Download_button ''Download Renamed Image'' ''JPG7abc'' ''tabby.jpeg''
                  ''image/jpeg'']\<rparr>)"
  by (simp add: script_def sidebar_radio_nav classifier_defs demo_defs demo_top_five
        lower_JPEG upper_jpeg emit_def Let_def)


lemma demo_run_events:
  "run_events demo_libs upload_inputs demo_world =
     [Sidebar_title ''Navigation'', Title ''ResNet-50 Image Classifier'',
                Call_file_uploader upload_types,
      Call_image_open ''JPG9abc'', Call_resnet50, Call_preprocess, Call_model,
      Call_attribute 2,
      Plot_top5 [''tench'', ''beagle'', ''lynx'', ''tiger cat'', ''tabby'']
        [1/10, 3/25, 3/20, 1/5, 3/10],
      Plot_image (''JPEG'', ''abc''), Plot_attribution 2,
      Call_image_save ''JPEG'',
      Download_button ''Download Renamed Image'' ''JPG7abc'' ''tabby.jpeg'' ''image/jpeg'']"
  by (simp add: run_events_def demo_classified) (simp add: demo_world_def)

lemma classified_world_eq:
  "classified_world =
      \<lparr>session = \<lparr>ss_img = Some (''JPEG'', ''abc''),
                  ss_probs = Some [3/10, 1/5, 3/20, 3/25, 1/10],
                  ss_idxs = Some [2, 3, 4, 5, 0], ss_feature_imp = Some 2,
                  ss_new_filename = Some ''tabby.jpeg'',
                  ss_img_byte_arr = Some ''JPG7abc''\<rparr>,
       model_cache = Some (), files = (\<lambda>name. []), writable = (\<lambda>name. True),
       encoding = (\<lambda>text. False),
       trace = [Sidebar_title ''Navigation'', Title ''ResNet-50 Image Classifier'',
                Call_file_uploader upload_types,
                Call_image_open ''JPG9abc'', Call_resnet50, Call_preprocess, Call_model,
                Call_attribute 2,
                Plot_top5 [''tench'', ''beagle'', ''lynx'', ''tiger cat'', ''tabby'']
                  [1/10, 3/25, 3/20, 1/5, 3/10],
                Plot_image (''JPEG'', ''abc''), Plot_attribution 2,
                Call_image_save ''JPEG'',
                Download_button ''Download Renamed Image'' ''JPG7abc'' ''tabby.jpeg''
                  ''image/jpeg'']\<rparr>"
  by (simp add: classified_world_def demo_classified)

lemma classified_world_fields:
  "ss_new_filename (session classified_world) = Some ''tabby.jpeg''"
  "files classified_world = (\<lambda>name. [])"
  "writable classified_world = (\<lambda>name. True)"
  "encoding classified_world = (\<lambda>text. False)"
  "length (trace classified_world) = 13"
  by (simp_all add: classified_world_eq)

lemma demo_like_files:
  "files (snd (script demo_libs like_inputs classified_world)) ''feedback.txt''
     = ''Like for tabby.jpeg'' @ [newline]"
  by (simp add: script_connect like_inputs_def demo_inputs_def connect_defs emit_simps
        classified_world_fields encodable_def newline_def)

lemma demo_like_events:
  "run_events demo_libs like_inputs classified_world =
     [Sidebar_title ''Navigation'', Title ''Connect to Us'', Write ''We'd love to hear from you!'',
      Subheader ''Feedback'', Write ''Did you find the output useful?'',
      Call_open_append ''feedback.txt'', Call_write ''feedback.txt'',
      Success ''Thank you for your feedback!'']"
  by (simp add: run_events_def script_connect like_inputs_def demo_inputs_def connect_defs
        emit_simps classified_world_fields encodable_def newline_def)

lemma demo_comment_files:
  "files (snd (script demo_libs comment_inputs demo_world)) ''user_comments.txt''
     = ''2024-03-09 14:05:07.123456: nice'' @ [newline]"
  by (simp add: script_connect comment_inputs_def demo_inputs_def connect_defs emit_simps
        demo_world_def empty_session_def demo_clock_def str_datetime_def zero_padded_def
        string_of_nat.simps digit_char_def char_of_def bit_iff_odd encodable_def newline_def)

section \<open>The claims\<close>

subsection \<open>The five highest softmax outputs\<close>

text \<open>
  Claim C1. Whenever the network yields its vector of softmax outputs (at least five of
  them; the pretrained network has a thousand), \<open>make_prediction\<close> returns five
  probabilities and five distinct indices into that vector; the i-th probability is the
  softmax output at the i-th index; the probabilities are in descending order; and no
  output that was left out exceeds one that was returned.
\<close>

theorem make_prediction_top_five:
  assumes out: "softmax_out L model x = Inr probs" and five: "5 \<le> length probs"
  shows "\<exists>prob idxs. fst (make_prediction L model x w) = Inr (prob, idxs)
           \<and> length prob = 5 \<and> length idxs = 5 \<and> distinct idxs
           \<and> (\<forall>i<5. idxs ! i < length probs \<and> prob ! i = probs ! (idxs ! i))
           \<and> sorted (rev prob)
           \<and> (\<forall>j<length probs. j \<notin> set idxs \<longrightarrow> (\<forall>p\<in>set prob. probs ! j \<le> p))"
proof -
  let ?prob = "fst (top_five probs)" and ?idxs = "snd (top_five probs)"
  have res: "fst (make_prediction L model x w) = Inr (?prob, ?idxs)"
    using out by (simp add: make_prediction_def)
  have len: "length ?idxs = 5"
    using five by (simp add: top_five_idxs_length)
  have lenp: "length ?prob = 5"
    using len by (simp add: top_five_prob)
  have nth: "\<forall>i<5. ?idxs ! i < length probs \<and> ?prob ! i = probs ! (?idxs ! i)"
  proof (intro allI impI)
    fix i :: nat assume i: "i < 5"
    then have "?idxs ! i \<in> set ?idxs" using len by simp
    then have "?idxs ! i < length probs" using top_five_idxs_range [of probs] by auto
    moreover have "?prob ! i = probs ! (?idxs ! i)"
      using i len by (simp add: top_five_prob)
    ultimately show "?idxs ! i < length probs \<and> ?prob ! i = probs ! (?idxs ! i)" by simp
  qed
  have high: "\<forall>j<length probs. j \<notin> set ?idxs \<longrightarrow> (\<forall>p\<in>set ?prob. probs ! j \<le> p)"
    using top_five_highest by blast
  show ?thesis
    using res len lenp nth high top_five_idxs_distinct [of probs] top_five_descending [of probs]
    by blast
qed

theorem make_prediction_top_five_witness:
  "softmax_out demo_libs () [] = Inr demo_probs \<and> 5 \<le> length demo_probs
   \<and> (\<exists>prob idxs. fst (make_prediction demo_libs () [] demo_world) = Inr (prob, idxs)
           \<and> length prob = 5 \<and> length idxs = 5 \<and> distinct idxs
           \<and> (\<forall>i<5. idxs ! i < length demo_probs \<and> prob ! i = demo_probs ! (idxs ! i))
           \<and> sorted (rev prob)
           \<and> (\<forall>j<length demo_probs. j \<notin> set idxs \<longrightarrow> (\<forall>p\<in>set prob. demo_probs ! j \<le> p)))"
proof -
  have out: "softmax_out demo_libs () [] = Inr demo_probs" by (simp add: demo_libs_def)
  have five: "5 \<le> length demo_probs" by (simp add: demo_probs_def)
  show ?thesis using out five make_prediction_top_five [OF out five, of demo_world] by blast
qed

lemma page_classifier_iff:
  "sidebar_radio nav_options (radio_choice inp) = ''Image Classifier'' \<longleftrightarrow> radio_choice inp \<noteq> 1"
  by (simp add: sidebar_radio_nav)

lemma page_connect_iff:
  "sidebar_radio nav_options (radio_choice inp) = ''Connect to Us'' \<longleftrightarrow> radio_choice inp = 1"
  by (simp add: sidebar_radio_nav)

lemma top_five_Nil: "snd (top_five []) = []"
  by (simp add: top_five_def argsort_def last_five_def)



text \<open>What the two pages leave alone, fact by fact.\<close>

lemma script_connect_no_classifier:
  assumes "radio_choice inp = 1" and "e \<in> set (run_events L inp w)"
  shows "\<not> classifier_event e"
proof -
  have "\<forall>e\<in>set (run_events L inp w). \<not> classifier_event e"
    using script_connect_frame [OF assms(1), of L w] by simp
  then show ?thesis using assms(2) by (rule bspec)
qed


lemma script_connect_other_files:
  assumes "radio_choice inp = 1" and "name \<noteq> ''feedback.txt''" and "name \<noteq> ''user_comments.txt''"
  shows "files (snd (script L inp w)) name = files w name"
  using script_connect_frame [OF assms(1), of L w] assms(2,3) by simp

lemma script_connect_feedback:
  assumes "radio_choice inp = 1"
    and "files (snd (script L inp w)) ''feedback.txt'' \<noteq> files w ''feedback.txt''"
  shows "\<exists>fn. ss_new_filename (session w) = Some fn
           \<and> (like_clicked inp \<or> dislike_clicked inp) \<and> writable w ''feedback.txt''
           \<and> files (snd (script L inp w)) ''feedback.txt'' = files w ''feedback.txt''
               @ (if like_clicked inp then ''Like for '' @ fn @ [newline] else [])
               @ (if dislike_clicked inp then ''Dislike for '' @ fn @ [newline] else [])"
proof -
  have "files (snd (script L inp w)) ''feedback.txt'' \<noteq> files w ''feedback.txt'' \<longrightarrow>
       (\<exists>fn. ss_new_filename (session w) = Some fn
           \<and> (like_clicked inp \<or> dislike_clicked inp) \<and> writable w ''feedback.txt''
           \<and> files (snd (script L inp w)) ''feedback.txt'' = files w ''feedback.txt''
               @ (if like_clicked inp then ''Like for '' @ fn @ [newline] else [])
               @ (if dislike_clicked inp then ''Dislike for '' @ fn @ [newline] else []))"
    using script_connect_frame [OF assms(1), of L w]
    by (elim conjE) assumption
  then show ?thesis using assms(2) by (rule mp)
qed

lemma script_connect_comment_changed:
  assumes "radio_choice inp = 1"
    and "files (snd (script L inp w)) ''user_comments.txt'' \<noteq> files w ''user_comments.txt''"
  shows "submit_clicked inp \<and> writable w ''user_comments.txt''"
proof -
  have "files (snd (script L inp w)) ''user_comments.txt'' \<noteq> files w ''user_comments.txt''
               \<longrightarrow> submit_clicked inp \<and> writable w ''user_comments.txt''"
    using script_connect_frame [OF assms(1), of L w]
    by (elim conjE) assumption
  then show ?thesis using assms(2) by (rule mp)
qed

lemma script_connect_comment_appended:
  assumes "radio_choice inp = 1" and "submit_clicked inp" and "fst (script L inp w) = None"
  shows "files (snd (script L inp w)) ''user_comments.txt''
           = files w ''user_comments.txt'' @ comment_record (clock inp) (comment_text inp)"
proof -
  have "submit_clicked inp \<and> fst (script L inp w) = None \<longrightarrow>
               files (snd (script L inp w)) ''user_comments.txt''
                 = files w ''user_comments.txt'' @ comment_record (clock inp) (comment_text inp)"
    using script_connect_frame [OF assms(1), of L w]
    by (elim conjE) assumption
  then show ?thesis using assms(2,3) by simp
qed

lemma script_classifier_files:
  assumes "radio_choice inp \<noteq> 1"
  shows "files (snd (script L inp w)) = files w"
  using script_classifier_frame [OF assms, of L w] by (elim conjE) assumption

lemma script_classifier_no_connect:
  assumes "radio_choice inp \<noteq> 1" and "e \<in> set (run_events L inp w)"
  shows "\<not> connect_event e"
proof -
  have "\<forall>e\<in>set (run_events L inp w). \<not> connect_event e"
    using script_classifier_frame [OF assms(1), of L w] by (elim conjE) assumption
  then show ?thesis using assms(2) by (rule bspec)
qed

lemma script_classifier_open:
  assumes "radio_choice inp \<noteq> 1" and "Call_image_open b \<in> set (run_events L inp w)"
  shows "\<exists>u. file_uploader L upload_types (uploaded inp) = Inr (Some u) \<and> up_content u = b"
proof -
  have "\<forall>b. Call_image_open b \<in> set (run_events L inp w) \<longrightarrow>
               (\<exists>u. file_uploader L upload_types (uploaded inp) = Inr (Some u)
                     \<and> up_content u = b)"
    using script_classifier_frame [OF assms(1), of L w] by (elim conjE) assumption
  then show ?thesis using assms(2) by (elim allE [of _ b]) (rule mp)
qed


subsection \<open>The attribution explains the top prediction\<close>



subsection \<open>The uploader\<close>

lemma classifier_page_uploader:
  fixes L :: "('i, 't, 'm, 'f) libs"
  assumes run: "classifier_page L inp w = (r, w')"
  shows "\<exists>rest. trace w' = trace w @ [Title ''ResNet-50 Image Classifier'',
                     Call_file_uploader upload_types] @ rest
           \<and> (\<forall>types. Call_file_uploader types \<notin> set rest)
           \<and> (\<forall>u. file_uploader L upload_types (uploaded inp) = Inr (Some u)
                 \<longrightarrow> Call_image_open (up_content u) \<in> set rest)"
proof -
  let ?title = "Title ''ResNet-50 Image Classifier'' :: ('i, 'f) event"
  let ?call = "Call_file_uploader upload_types :: ('i, 'f) event"
  let ?w1 = "emit ?call (emit ?title w)"
  let ?res = "file_uploader L upload_types (uploaded inp)"
  let ?R = "\<lambda>rest. (\<forall>types. Call_file_uploader types \<notin> set rest)
           \<and> (\<forall>u. ?res = Inr (Some u) \<longrightarrow> Call_image_open (up_content u) \<in> set rest)"
  have T1: "trace ?w1 = trace w @ [?title, ?call] @ []" by (simp add: emit_simps)
  show ?thesis
  proof (cases ?res)
    case (Inl e)
    then have "w' = ?w1" using run by (simp add: classifier_page_def Let_def)
    moreover have "?R []" using Inl by simp
    ultimately show ?thesis using T1 by blast
  next
    case res: (Inr upl)
    show ?thesis
    proof (cases "upl \<noteq> None \<or> ss_img (session ?w1) \<noteq> None")
      case False
      then have "w' = ?w1" using run res by (simp add: classifier_page_def Let_def)
      moreover have "?R []" using res False by simp
      ultimately show ?thesis using T1 by blast
    next
      case True
      obtain r2 w2 where c: "current_image L upl ?w1 = (r2, w2)"
        by (cases "current_image L upl ?w1") auto
      note f = current_image_frame [OF c]
      define opened :: "('i, 'f) event list" where
        "opened = (case upl of None \<Rightarrow> [] | Some u \<Rightarrow> [Call_image_open (up_content u)])"
      have T2: "trace w2 = trace w @ [?title, ?call] @ opened"
        using f by (simp add: emit_simps opened_def)
      have R2: "?R opened" using res by (auto simp: opened_def split: option.splits)
      show ?thesis
      proof (cases r2)
        case (Inl e)
        then have "w' = w2" using run c True res by (simp add: classifier_page_def Let_def)
        then show ?thesis using T2 R2 by blast
      next
        case (Inr img)
        then have k: "classify_image L img w2 = (r, w')"
          using run c True res by (simp add: classifier_page_def Let_def)
        from classify_image_frame [OF k] obtain evs where
          g: "trace w' = trace w2 @ evs"
             "list_all (classify_event L (run_model L w2) img) evs"
          by blast
        have n: "\<forall>types. Call_file_uploader types \<notin> set evs"
        proof (intro allI notI)
          fix types assume "Call_file_uploader types \<in> set evs"
          moreover have "\<forall>e\<in>set evs. classify_event L (run_model L w2) img e"
            using g(2) by (simp add: list_all_iff)
          ultimately have "classify_event L (run_model L w2) img (Call_file_uploader types)"
            by blast
          then show False by simp
        qed
        have "?R (opened @ evs)" using R2 n by auto
        moreover have "trace w' = trace w @ [?title, ?call] @ (opened @ evs)"
          using g(1) T2 by simp
        ultimately show ?thesis by blast
      qed
    qed
  qed
qed

lemma script_classifier_uploader:
  fixes L :: "('i, 't, 'm, 'f) libs"
  assumes page: "radio_choice inp \<noteq> 1"
  shows "\<exists>rest. run_events L inp w
             = [Sidebar_title ''Navigation'', Title ''ResNet-50 Image Classifier'',
                Call_file_uploader upload_types] @ rest
           \<and> (\<forall>types. Call_file_uploader types \<notin> set rest)
           \<and> (\<forall>u. file_uploader L upload_types (uploaded inp) = Inr (Some u)
                 \<longrightarrow> Call_image_open (up_content u) \<in> set rest)"
proof -
  let ?w0 = "emit (Sidebar_title ''Navigation'') w"
  obtain r w' where run: "classifier_page L inp ?w0 = (r, w')"
    by (cases "classifier_page L inp ?w0") auto
  have s: "script L inp w = (r, w')" using page run by (simp add: script_classifier)
  from classifier_page_uploader [OF run] obtain rest where
    f: "trace w' = trace ?w0 @ [Title ''ResNet-50 Image Classifier'',
                     Call_file_uploader upload_types] @ rest"
       "\<forall>types. Call_file_uploader types \<notin> set rest"
       "\<forall>u. file_uploader L upload_types (uploaded inp) = Inr (Some u)
                 \<longrightarrow> Call_image_open (up_content u) \<in> set rest"
    by blast
  have "run_events L inp w = [Sidebar_title ''Navigation'', Title ''ResNet-50 Image Classifier'',
                Call_file_uploader upload_types] @ rest"
    using s f(1) by (simp add: run_events_def emit_simps)
  then show ?thesis using f(2,3) by blast
qed

lemma lower_upload_types: "map lower upload_types = [''png'', ''jpg'', ''jpeg'']"
  by code_simp

lemma lower_JPG: "lower ''JPG'' = ''jpg''"
  by code_simp

lemma lower_gif: "lower ''gif'' = ''gif''"
  by code_simp

lemma demo_uploader_honours: "honours_types demo_uploader upload_types"
  unfolding honours_types_def lower_upload_types
  by (auto simp: demo_uploader_def upload_types_def split: option.splits)

text \<open>
  Claim C7. Line 44 gives the uploader the three types png, jpg and jpeg, and a run calls
  the uploader once, first thing after the title, on the "Image Classifier" page and
  nowhere else. With an uploader that honours its type argument, a file of one of the three
  types (its extension in any letter case) that is offered on that page is accepted: its
  bytes are opened as an image. No upload of any other type is accepted: the only bytes
  that a run ever opens as an image are those of an offered file of one of the three types.
\<close>

theorem uploader_accepts_three_types:
  fixes L :: "('i, 't, 'm, 'f) libs" and w :: "('i, 'm, 'f) world"
  assumes widget: "honours_types (file_uploader L) upload_types"
  shows "upload_types = [''png'', ''jpg'', ''jpeg'']
   \<and> (radio_choice inp \<noteq> 1 \<longrightarrow>
         (\<exists>rest. run_events L inp w
                    = [Sidebar_title ''Navigation'', Title ''ResNet-50 Image Classifier'',
                       Call_file_uploader [''png'', ''jpg'', ''jpeg'']] @ rest
                  \<and> (\<forall>types. Call_file_uploader types \<notin> set rest)))
   \<and> (radio_choice inp = 1 \<longrightarrow> (\<forall>types. Call_file_uploader types \<notin> set (run_events L inp w)))
   \<and> (\<forall>u. radio_choice inp \<noteq> 1 \<and> uploaded inp = Some u
            \<and> lower (up_type u) \<in> {''png'', ''jpg'', ''jpeg''}
          \<longrightarrow> Call_image_open (up_content u) \<in> set (run_events L inp w))
   \<and> (\<forall>b. Call_image_open b \<in> set (run_events L inp w) \<longrightarrow>
         (\<exists>v. uploaded inp = Some v \<and> up_content v = b
              \<and> lower (up_type v) \<in> {''png'', ''jpg'', ''jpeg''}))"
proof -
  have types: "upload_types = [''png'', ''jpg'', ''jpeg'']" by (simp add: upload_types_def)
  have handed: "file_uploader L upload_types offered = Inr (Some u)
      \<longleftrightarrow> offered = Some u \<and> lower (up_type u) \<in> {''png'', ''jpg'', ''jpeg''}"
    for offered u
    using widget unfolding honours_types_def lower_upload_types by auto
  have once: "radio_choice inp \<noteq> 1 \<longrightarrow>
         (\<exists>rest. run_events L inp w
                    = [Sidebar_title ''Navigation'', Title ''ResNet-50 Image Classifier'',
                       Call_file_uploader [''png'', ''jpg'', ''jpeg'']] @ rest
                  \<and> (\<forall>types. Call_file_uploader types \<notin> set rest))"
  proof
    assume "radio_choice inp \<noteq> 1"
    from script_classifier_uploader [OF this, of L w] show
      "\<exists>rest. run_events L inp w
                    = [Sidebar_title ''Navigation'', Title ''ResNet-50 Image Classifier'',
                       Call_file_uploader [''png'', ''jpg'', ''jpeg'']] @ rest
                  \<and> (\<forall>types. Call_file_uploader types \<notin> set rest)"
      unfolding types by blast
  qed
  have never: "radio_choice inp = 1 \<longrightarrow> (\<forall>types. Call_file_uploader types \<notin> set (run_events L inp w))"
  proof (intro impI allI notI)
    fix types
    assume c: "radio_choice inp = 1" and o: "Call_file_uploader types \<in> set (run_events L inp w)"
    have "\<not> classifier_event (Call_file_uploader types :: ('i, 'f) event)"
      using c o by (rule script_connect_no_classifier)
    then show False by simp
  qed
  have accepted: "\<forall>u. radio_choice inp \<noteq> 1 \<and> uploaded inp = Some u
            \<and> lower (up_type u) \<in> {''png'', ''jpg'', ''jpeg''}
          \<longrightarrow> Call_image_open (up_content u) \<in> set (run_events L inp w)"
  proof (intro allI impI)
    fix u
    assume a: "radio_choice inp \<noteq> 1 \<and> uploaded inp = Some u
            \<and> lower (up_type u) \<in> {''png'', ''jpg'', ''jpeg''}"
    then have h: "file_uploader L upload_types (uploaded inp) = Inr (Some u)"
      by (simp only: handed)
    from a have page: "radio_choice inp \<noteq> 1" by simp
    from script_classifier_uploader [OF page, of L w] obtain rest where
      r: "run_events L inp w
             = [Sidebar_title ''Navigation'', Title ''ResNet-50 Image Classifier'',
                Call_file_uploader upload_types] @ rest"
         "\<forall>u. file_uploader L upload_types (uploaded inp) = Inr (Some u)
                 \<longrightarrow> Call_image_open (up_content u) \<in> set rest"
      by blast
    from r(2) h have "Call_image_open (up_content u) \<in> set rest" by blast
    then show "Call_image_open (up_content u) \<in> set (run_events L inp w)"
      unfolding r(1) by simp
  qed
  have only: "\<forall>b. Call_image_open b \<in> set (run_events L inp w) \<longrightarrow>
         (\<exists>v. uploaded inp = Some v \<and> up_content v = b
              \<and> lower (up_type v) \<in> {''png'', ''jpg'', ''jpeg''})"
  proof (intro allI impI)
    fix b assume o: "Call_image_open b \<in> set (run_events L inp w)"
    have page: "radio_choice inp \<noteq> 1"
    proof
      assume c: "radio_choice inp = 1"
      have "\<not> classifier_event (Call_image_open b :: ('i, 'f) event)"
        using c o by (rule script_connect_no_classifier)
      then show False by simp
    qed
    from script_classifier_open [OF page o]
    obtain v where v: "file_uploader L upload_types (uploaded inp) = Inr (Some v)" "up_content v = b"
      by blast
    from v(1) have "uploaded inp = Some v \<and> lower (up_type v) \<in> {''png'', ''jpg'', ''jpeg''}"
      by (simp only: handed)
    then show "\<exists>v. uploaded inp = Some v \<and> up_content v = b
              \<and> lower (up_type v) \<in> {''png'', ''jpg'', ''jpeg''}"
      using v(2) by blast
  qed
  show ?thesis using types once never accepted only by (intro conjI)
qed

theorem uploader_accepts_three_types_witness:
  "honours_types (file_uploader demo_libs) upload_types
   \<and> radio_choice capital_inputs \<noteq> 1 \<and> uploaded capital_inputs = Some capital_upload
   \<and> lower (up_type capital_upload) \<in> {''png'', ''jpg'', ''jpeg''}
   \<and> Call_image_open ''JPG9abc'' \<in> set (run_events demo_libs capital_inputs demo_world)
   \<and> (\<exists>rest. run_events demo_libs capital_inputs demo_world
                = [Sidebar_title ''Navigation'', Title ''ResNet-50 Image Classifier'',
                   Call_file_uploader [''png'', ''jpg'', ''jpeg'']] @ rest
              \<and> (\<forall>types. Call_file_uploader types \<notin> set rest))
   \<and> radio_choice like_inputs = 1
   \<and> (\<forall>types. Call_file_uploader types \<notin> set (run_events demo_libs like_inputs classified_world))
   \<and> uploaded gif_inputs = Some gif_upload
   \<and> lower (up_type gif_upload) \<notin> {''png'', ''jpg'', ''jpeg''}
   \<and> (\<forall>b. Call_image_open b \<notin> set (run_events demo_libs gif_inputs demo_world))"
proof -
  have h: "honours_types (file_uploader demo_libs) upload_types"
    using demo_uploader_honours by (simp add: demo_libs_def)
  have c: "radio_choice capital_inputs \<noteq> 1 \<and> uploaded capital_inputs = Some capital_upload
            \<and> lower (up_type capital_upload) \<in> {''png'', ''jpg'', ''jpeg''}"
    by (simp add: capital_inputs_def capital_upload_def demo_inputs_def lower_JPG)
  have content: "up_content capital_upload = ''JPG9abc''" by (simp add: capital_upload_def)
  have l: "radio_choice like_inputs = 1" by (simp add: like_inputs_def demo_inputs_def)
  have g: "uploaded gif_inputs = Some gif_upload
            \<and> lower (up_type gif_upload) \<notin> {''png'', ''jpg'', ''jpeg''}"
    by (simp add: gif_inputs_def gif_upload_def demo_inputs_def lower_gif)
  note t1 = uploader_accepts_three_types [OF h, of capital_inputs demo_world]
  note t2 = uploader_accepts_three_types [OF h, of like_inputs classified_world]
  note t3 = uploader_accepts_three_types [OF h, of gif_inputs demo_world]
  have a1: "Call_image_open ''JPG9abc'' \<in> set (run_events demo_libs capital_inputs demo_world)"
    using t1 c content by auto
  have a2: "\<exists>rest. run_events demo_libs capital_inputs demo_world
                = [Sidebar_title ''Navigation'', Title ''ResNet-50 Image Classifier'',
                   Call_file_uploader [''png'', ''jpg'', ''jpeg'']] @ rest
              \<and> (\<forall>types. Call_file_uploader types \<notin> set rest)"
    using t1 c by blast
  have a3: "\<forall>types. Call_file_uploader types \<notin> set (run_events demo_libs like_inputs classified_world)"
    using t2 l by blast
  have a4: "\<forall>b. Call_image_open b \<notin> set (run_events demo_libs gif_inputs demo_world)"
  proof (intro allI notI)
    fix b assume "Call_image_open b \<in> set (run_events demo_libs gif_inputs demo_world)"
    with t3 have "\<exists>v. uploaded gif_inputs = Some v \<and> up_content v = b
              \<and> lower (up_type v) \<in> {''png'', ''jpg'', ''jpeg''}"
      by blast
    then show False using g by auto
  qed
  show ?thesis using h c l g a1 a2 a3 a4 by (intro conjI) simp_all
qed

lemma session_runs_snoc:
  "session_runs L (pre @ [a]) w = snd (script L a (session_runs L pre w))"
  by (induction pre arbitrary: w) simp_all


subsection \<open>Two views, never both\<close>

text \<open>
  Claim C8. The sidebar offers exactly the two views and every run is in one of them. A run
  that opens, loads, predicts, attributes, plots, re-encodes or offers the download is a run
  with "Image Classifier" selected; a run that opens a text file for appending, confirms a
  feedback or a comment, or changes any file is a run with "Connect to Us" selected; and no
  run does both.
\<close>

theorem two_exclusive_views:
  fixes L :: "('i, 't, 'm, 'f) libs" and w :: "('i, 'm, 'f) world"
  shows "nav_options = [''Image Classifier'', ''Connect to Us'']
   \<and> (sidebar_radio nav_options (radio_choice inp) = ''Image Classifier''
        \<or> sidebar_radio nav_options (radio_choice inp) = ''Connect to Us'')
   \<and> ((\<exists>e\<in>set (run_events L inp w). classifier_event e) \<longrightarrow>
         sidebar_radio nav_options (radio_choice inp) = ''Image Classifier'')
   \<and> ((\<exists>e\<in>set (run_events L inp w). connect_event e) \<or> files (snd (script L inp w)) \<noteq> files w
         \<longrightarrow> sidebar_radio nav_options (radio_choice inp) = ''Connect to Us'')
   \<and> \<not> ((\<exists>e\<in>set (run_events L inp w). classifier_event e)
          \<and> ((\<exists>e\<in>set (run_events L inp w). connect_event e)
               \<or> files (snd (script L inp w)) \<noteq> files w))"
proof (cases "radio_choice inp = 1")
  case True
  have page: "sidebar_radio nav_options (radio_choice inp) = ''Connect to Us''"
    using True by (rule page_connect_iff [THEN iffD2])
  have none: "\<not> (\<exists>e\<in>set (run_events L inp w). classifier_event e)"
    using script_connect_no_classifier [OF True, of _ L w] by blast
  show ?thesis using page none by (simp add: nav_options_def)
next
  case False
  have page: "sidebar_radio nav_options (radio_choice inp) = ''Image Classifier''"
    using False by (rule page_classifier_iff [THEN iffD2])
  have none: "\<not> (\<exists>e\<in>set (run_events L inp w). connect_event e)"
    using script_classifier_no_connect [OF False, of _ L w] by blast
  have same: "files (snd (script L inp w)) = files w"
    using False by (rule script_classifier_files)
  show ?thesis using page none same by (simp add: nav_options_def)
qed

theorem two_exclusive_views_witness:
  "(\<exists>e\<in>set (run_events demo_libs upload_inputs demo_world). classifier_event e)
   \<and> sidebar_radio nav_options (radio_choice upload_inputs) = ''Image Classifier''
   \<and> (\<exists>e\<in>set (run_events demo_libs like_inputs classified_world). connect_event e)
   \<and> files (snd (script demo_libs like_inputs classified_world)) \<noteq> files classified_world
   \<and> sidebar_radio nav_options (radio_choice like_inputs) = ''Connect to Us''
   \<and> \<not> (\<exists>e\<in>set (run_events demo_libs like_inputs classified_world). classifier_event e)"
proof -
  have a: "\<exists>e\<in>set (run_events demo_libs upload_inputs demo_world). classifier_event e"
    by (simp add: demo_run_events)
  have b: "\<exists>e\<in>set (run_events demo_libs like_inputs classified_world). connect_event e"
    by (simp add: demo_like_events)
  have "files (snd (script demo_libs like_inputs classified_world)) ''feedback.txt''
          \<noteq> files classified_world ''feedback.txt''"
    by (simp add: demo_like_files classified_world_fields)
  then have c: "files (snd (script demo_libs like_inputs classified_world)) \<noteq> files classified_world"
    by auto
  show ?thesis
    using a b c two_exclusive_views [of upload_inputs demo_libs demo_world]
      two_exclusive_views [of like_inputs demo_libs classified_world]
    by blast
qed

subsection \<open>Feedback only after a classification\<close>










lemma demo_upload_page:
  "sidebar_radio nav_options (radio_choice upload_inputs) = ''Image Classifier''"
  by (simp add: sidebar_radio_nav upload_inputs_def demo_inputs_def)





subsection \<open>The renamed download\<close>




subsection \<open>The bytes of the download\<close>




subsection \<open>Digits, timestamps and lines\<close>

lemma is_digit_digit_char: "d < 10 \<Longrightarrow> is_digit (digit_char d)"
  by (simp add: is_digit_def digit_char_def)

lemma is_digit_zero: "is_digit (CHR ''0'')"
  by (simp add: is_digit_def)


lemma string_of_nat_digits: "list_all is_digit (string_of_nat n)"
proof (induction n rule: string_of_nat.induct)
  case (1 n)
  show ?case
  proof (cases "n < 10")
    case True
    then show ?thesis by (simp add: string_of_nat.simps [of n] is_digit_digit_char)
  next
    case False
    then have "list_all is_digit (string_of_nat (n div 10))" using 1 by simp
    moreover have "is_digit (digit_char (n mod 10))" by (simp add: is_digit_digit_char)
    ultimately show ?thesis using False by (simp add: string_of_nat.simps [of n])
  qed
qed

lemma string_of_nat_length: "0 < k \<Longrightarrow> n < 10 ^ k \<Longrightarrow> length (string_of_nat n) \<le> k"
proof (induction n arbitrary: k rule: string_of_nat.induct)
  case (1 n)
  show ?case
  proof (cases "n < 10")
    case True
    then show ?thesis using 1(2) by (simp add: string_of_nat.simps [of n])
  next
    case False
    obtain j where k: "k = Suc j" using 1(2) by (cases k) auto
    have "0 < j"
    proof (rule ccontr)
      assume "\<not> 0 < j"
      then have "k = 1" using k by simp
      then show False using 1(3) False by simp
    qed
    moreover have "n div 10 < 10 ^ j" using 1(3) k by (simp add: less_mult_imp_div_less mult.commute)
    ultimately have "length (string_of_nat (n div 10)) \<le> j" using 1(1) False by simp
    then show ?thesis using False k by (simp add: string_of_nat.simps [of n])
  qed
qed

lemma zero_padded_digits: "list_all is_digit (zero_padded k n)"
  using string_of_nat_digits [of n]
  by (auto simp: zero_padded_def list_all_iff is_digit_zero)

lemma zero_padded_length: "0 < k \<Longrightarrow> n < 10 ^ k \<Longrightarrow> length (zero_padded k n) = k"
  using string_of_nat_length [of k n] by (simp add: zero_padded_def)

lemma matches_field:
  "list_all is_digit ds \<Longrightarrow>
     matches_prefix (replicate (length ds) Digit @ ps) (ds @ s) = matches_prefix ps s"
  by (induction ds) simp_all

lemma matches_padded:
  assumes "0 < k" and "n < 10 ^ k"
  shows "matches_prefix (replicate k Digit @ ps) (zero_padded k n @ s) = matches_prefix ps s"
  using matches_field [OF zero_padded_digits, of k n ps s] zero_padded_length [OF assms]
  by simp

lemma matches_padded_last:
  assumes "0 < k" and "n < 10 ^ k"
  shows "matches_prefix (replicate k Digit) (zero_padded k n @ s)"
  using matches_padded [OF assms, of "[]" s] by simp

lemma timestamp_pattern_fields:
  "timestamp_pattern =
     replicate 4 Digit @ Literal (CHR ''-'') # replicate 2 Digit @ Literal (CHR ''-'')
     # replicate 2 Digit @ Literal (CHR '' '') # replicate 2 Digit @ Literal (CHR '':'')
     # replicate 2 Digit @ Literal (CHR '':'') # replicate 2 Digit @ []"
  by (simp add: timestamp_pattern_def eval_nat_numeral)

text \<open>The text of a valid \<open>datetime\<close> begins with a timestamp.\<close>

lemma str_datetime_matches:
  assumes "valid_datetime dt"
  shows "matches_prefix timestamp_pattern (str_datetime dt @ rest)"
proof -
  have b: "year dt < 10 ^ 4" "month dt < 10 ^ 2" "day dt < 10 ^ 2" "hour dt < 10 ^ 2"
    "minute dt < 10 ^ 2" "second dt < 10 ^ 2"
    using assms by (simp_all add: valid_datetime_def)
  have p: "(0::nat) < 4" "(0::nat) < 2" by simp_all
  show ?thesis
    unfolding timestamp_pattern_fields str_datetime_def
    by (simp add: matches_padded [OF p(1) b(1)] matches_padded [OF p(2) b(2)]
          matches_padded [OF p(2) b(3)] matches_padded [OF p(2) b(4)]
          matches_padded [OF p(2) b(5)] matches_padded_last [OF p(2) b(6)])
qed

lemma contains_of_prefix: "matches_prefix timestamp_pattern s \<Longrightarrow> contains_timestamp s"
  by (cases s) (simp_all add: timestamp_pattern_def)

lemma comment_record_timestamp:
  assumes "valid_datetime now"
  shows "matches_prefix timestamp_pattern (comment_record now comment)"
    and "contains_timestamp (comment_record now comment)"
proof -
  show m: "matches_prefix timestamp_pattern (comment_record now comment)"
    unfolding comment_record_def using assms by (rule str_datetime_matches)
  then show "contains_timestamp (comment_record now comment)" by (rule contains_of_prefix)
qed






subsection \<open>When the "Connect to Us" page fails and when it completes\<close>

lemma comment_section_failed:
  assumes "comment_section inp w = (r, w')" and "r \<noteq> None"
  shows "files w' = files w"
  using assms by (auto simp: comment_section_def append_file_def emit_simps split: if_splits)

lemma zero_padded_ascii: "list_all (\<lambda>c. \<not> digit7 c) (zero_padded k n)"
  using zero_padded_digits [of k n] by (auto simp: list_all_iff dest: digit_is_ascii)

lemma str_datetime_ascii: "list_all (\<lambda>c. \<not> digit7 c) (str_datetime dt)"
  by (simp add: str_datetime_def zero_padded_ascii)

lemma encodable_comment_record:
  "encodable w (comment_record now comment) = encodable w comment"
proof -
  have "encodable w ((str_datetime now @ '': '') @ comment @ [newline]) = encodable w comment"
    by (rule encodable_affix) (simp_all add: str_datetime_ascii newline_def)
  then show ?thesis by (simp add: comment_record_def)
qed

lemma feedback_section_completes:
  "fst (feedback_section inp w) = None \<longleftrightarrow> feedback_succeeds inp w"
  by (auto simp: feedback_section_def feedback_button_def append_file_def emit_simps
        feedback_succeeds_def encodable_feedback_line [simplified]
      split: option.splits)



lemma connect_page_failed:
  fixes w :: "('i, 'm, 'f) world"
  assumes run: "connect_page inp w = (r, w')" and r: "r \<noteq> None"
  shows "files w' ''user_comments.txt'' = files w ''user_comments.txt''"
proof -
  let ?w0 = "emit (Write ''Did you find the output useful?'')
               (emit (Subheader ''Feedback'')
                 (emit (Write ''We'd love to hear from you!'')
                   (emit (Title ''Connect to Us'') w)))"
  have w0: "files ?w0 = files w" by (simp add: emit_simps)
  obtain r1 w1 where a: "feedback_section inp ?w0 = (r1, w1)"
    by (cases "feedback_section inp ?w0") auto
  have names: "''user_comments.txt'' \<noteq> ''feedback.txt''" by simp
  have "\<forall>name. name \<noteq> ''feedback.txt'' \<longrightarrow> files w1 name = files ?w0 name"
    using feedback_section_frame [OF a] by (elim conjE) assumption
  then have f1: "files w1 ''user_comments.txt'' = files w ''user_comments.txt''"
    using names w0 by simp
  show ?thesis
  proof (cases r1)
    case (Some e)
    then have "w' = w1" using run a by (simp add: connect_page_def)
    then show ?thesis using f1 by simp
  next
    case None
    then have b: "comment_section inp w1 = (r, w')" using run a by (simp add: connect_page_def)
    have "files w' = files w1" using b r by (rule comment_section_failed)
    then show ?thesis using f1 by simp
  qed
qed

lemma feedback_succeeds_emit: "feedback_succeeds inp (emit e w) = feedback_succeeds inp w"
  by (simp add: feedback_succeeds_def emit_simps split: option.splits)

lemma feedback_section_encodable:
  "encodable (snd (feedback_section inp w)) = encodable w"
  by (auto simp: feedback_section_def feedback_button_def append_file_def emit_simps
      split: option.splits)


lemma script_connect_comment_written:
  fixes L :: "('i, 't, 'm, 'f) libs" and w :: "('i, 'm, 'f) world"
  assumes page: "radio_choice inp = 1"
    and ch: "files (snd (script L inp w)) ''user_comments.txt'' \<noteq> files w ''user_comments.txt''"
  shows "files (snd (script L inp w)) ''user_comments.txt''
           = files w ''user_comments.txt'' @ comment_record (clock inp) (comment_text inp)"
proof -
  let ?w0 = "emit (Sidebar_title ''Navigation'') w :: ('i, 'm, 'f) world"
  obtain r w' where run: "connect_page inp ?w0 = (r, w')"
    by (cases "connect_page inp ?w0") auto
  have s: "script L inp w = (r, w')" using page run by (simp add: script_connect)
  have "r = None"
  proof (rule ccontr)
    assume "r \<noteq> None"
    with run have "files w' ''user_comments.txt'' = files ?w0 ''user_comments.txt''"
      by (rule connect_page_failed)
    then show False using ch s by (simp add: emit_simps)
  qed
  then have ok: "fst (script L inp w) = None" using s by simp
  have sub: "submit_clicked inp"
    using script_connect_comment_changed [OF page ch] by simp
  show ?thesis using page sub ok by (rule script_connect_comment_appended)
qed


lemma demo_clock_valid: "valid_datetime demo_clock"
  by (simp add: valid_datetime_def demo_clock_def)


lemma like_line_no_timestamp: "\<not> contains_timestamp (''Like for tabby.jpeg'' @ [newline])"
  by (simp add: timestamp_pattern_def is_digit_def newline_def)




subsection \<open>What is written to the two files\<close>

text \<open>
  Claim C3 says that every line appended to either file contains a timestamp. The lines
  of feedback.txt do not: a Like on the classified example appends the line
  "Like for tabby.jpeg" and nothing else.
\<close>

theorem feedback_line_without_timestamp:
  "like_clicked like_inputs
   \<and> files classified_world ''feedback.txt'' = []
   \<and> files (snd (script demo_libs like_inputs classified_world)) ''feedback.txt''
        = ''Like for tabby.jpeg'' @ [newline]
   \<and> \<not> contains_timestamp (''Like for tabby.jpeg'' @ [newline])"
proof (intro conjI)
  show "like_clicked like_inputs" by (simp add: like_inputs_def demo_inputs_def)
  show "files classified_world ''feedback.txt'' = []" by (simp add: classified_world_fields)
  show "files (snd (script demo_libs like_inputs classified_world)) ''feedback.txt''
        = ''Like for tabby.jpeg'' @ [newline]"
    by (rule demo_like_files)
  show "\<not> contains_timestamp (''Like for tabby.jpeg'' @ [newline])"
    by (rule like_line_no_timestamp)
qed

text \<open>
  Claim C3, as amended. Whenever a run changes user_comments.txt, what it appends is the
  one record of line 132, and for a valid clock value that record begins with the
  timestamp of the submission. Whenever a run changes feedback.txt, what it appends is
  "Like for" and/or "Dislike for" followed by the stored file name and a newline: free
  text, with no timestamp written.
\<close>

theorem appended_records:
  fixes L :: "('i, 't, 'm, 'f) libs" and w :: "('i, 'm, 'f) world"
  shows "(valid_datetime (clock inp)
          \<and> files (snd (script L inp w)) ''user_comments.txt'' \<noteq> files w ''user_comments.txt''
          \<longrightarrow> files (snd (script L inp w)) ''user_comments.txt''
                = files w ''user_comments.txt'' @ str_datetime (clock inp) @ '': ''
                    @ comment_text inp @ [newline]
              \<and> matches_prefix timestamp_pattern
                  (str_datetime (clock inp) @ '': '' @ comment_text inp @ [newline])
              \<and> contains_timestamp
                  (str_datetime (clock inp) @ '': '' @ comment_text inp @ [newline]))
   \<and> (files (snd (script L inp w)) ''feedback.txt'' \<noteq> files w ''feedback.txt''
        \<longrightarrow> (\<exists>fn. ss_new_filename (session w) = Some fn
               \<and> files (snd (script L inp w)) ''feedback.txt''
                   = files w ''feedback.txt''
                     @ (if like_clicked inp then ''Like for '' @ fn @ [newline] else [])
                     @ (if dislike_clicked inp then ''Dislike for '' @ fn @ [newline] else [])))"
proof -
  have comments: "valid_datetime (clock inp)
          \<and> files (snd (script L inp w)) ''user_comments.txt'' \<noteq> files w ''user_comments.txt''
          \<longrightarrow> files (snd (script L inp w)) ''user_comments.txt''
                = files w ''user_comments.txt'' @ str_datetime (clock inp) @ '': ''
                    @ comment_text inp @ [newline]
              \<and> matches_prefix timestamp_pattern
                  (str_datetime (clock inp) @ '': '' @ comment_text inp @ [newline])
              \<and> contains_timestamp
                  (str_datetime (clock inp) @ '': '' @ comment_text inp @ [newline])"
  proof (rule impI)
    assume h: "valid_datetime (clock inp)
          \<and> files (snd (script L inp w)) ''user_comments.txt'' \<noteq> files w ''user_comments.txt''"
    then have v: "valid_datetime (clock inp)"
      and ch: "files (snd (script L inp w)) ''user_comments.txt'' \<noteq> files w ''user_comments.txt''"
      by simp_all
    have page: "radio_choice inp = 1"
    proof (rule ccontr)
      assume "radio_choice inp \<noteq> 1"
      then have "files (snd (script L inp w)) = files w" by (rule script_classifier_files)
      then show False using ch by simp
    qed
    have rec: "comment_record (clock inp) (comment_text inp)
                 = str_datetime (clock inp) @ '': '' @ comment_text inp @ [newline]"
      by (simp add: comment_record_def)
    show "files (snd (script L inp w)) ''user_comments.txt''
                = files w ''user_comments.txt'' @ str_datetime (clock inp) @ '': ''
                    @ comment_text inp @ [newline]
              \<and> matches_prefix timestamp_pattern
                  (str_datetime (clock inp) @ '': '' @ comment_text inp @ [newline])
              \<and> contains_timestamp
                  (str_datetime (clock inp) @ '': '' @ comment_text inp @ [newline])"
      using script_connect_comment_written [OF page ch]
        comment_record_timestamp [OF v, of "comment_text inp"]
      unfolding rec by simp
  qed
  have feedback: "files (snd (script L inp w)) ''feedback.txt'' \<noteq> files w ''feedback.txt''
        \<longrightarrow> (\<exists>fn. ss_new_filename (session w) = Some fn
               \<and> files (snd (script L inp w)) ''feedback.txt''
                   = files w ''feedback.txt''
                     @ (if like_clicked inp then ''Like for '' @ fn @ [newline] else [])
                     @ (if dislike_clicked inp then ''Dislike for '' @ fn @ [newline] else []))"
  proof (rule impI)
    assume ch: "files (snd (script L inp w)) ''feedback.txt'' \<noteq> files w ''feedback.txt''"
    have page: "radio_choice inp = 1"
    proof (rule ccontr)
      assume "radio_choice inp \<noteq> 1"
      then have "files (snd (script L inp w)) = files w" by (rule script_classifier_files)
      then show False using ch by simp
    qed
    from script_connect_feedback [OF page ch]
    obtain fn where f: "ss_new_filename (session w) = Some fn"
      "files (snd (script L inp w)) ''feedback.txt''
                   = files w ''feedback.txt''
                     @ (if like_clicked inp then ''Like for '' @ fn @ [newline] else [])
                     @ (if dislike_clicked inp then ''Dislike for '' @ fn @ [newline] else [])"
      by (elim exE conjE)
    show "\<exists>fn. ss_new_filename (session w) = Some fn
               \<and> files (snd (script L inp w)) ''feedback.txt''
                   = files w ''feedback.txt''
                     @ (if like_clicked inp then ''Like for '' @ fn @ [newline] else [])
                     @ (if dislike_clicked inp then ''Dislike for '' @ fn @ [newline] else [])"
      using f by (intro exI [of _ fn] conjI)
  qed
  show ?thesis using comments feedback by (rule conjI)
qed

theorem appended_records_witness:
  "valid_datetime (clock comment_inputs)
   \<and> files (snd (script demo_libs comment_inputs demo_world)) ''user_comments.txt''
        \<noteq> files demo_world ''user_comments.txt''
   \<and> files (snd (script demo_libs comment_inputs demo_world)) ''user_comments.txt''
        = files demo_world ''user_comments.txt'' @ str_datetime (clock comment_inputs) @ '': ''
            @ comment_text comment_inputs @ [newline]
   \<and> contains_timestamp
        (str_datetime (clock comment_inputs) @ '': '' @ comment_text comment_inputs @ [newline])
   \<and> files (snd (script demo_libs like_inputs classified_world)) ''feedback.txt''
        \<noteq> files classified_world ''feedback.txt''
   \<and> (\<exists>fn. ss_new_filename (session classified_world) = Some fn
          \<and> files (snd (script demo_libs like_inputs classified_world)) ''feedback.txt''
              = files classified_world ''feedback.txt''
                @ (if like_clicked like_inputs then ''Like for '' @ fn @ [newline] else [])
                @ (if dislike_clicked like_inputs then ''Dislike for '' @ fn @ [newline] else []))"
proof -
  have v: "valid_datetime (clock comment_inputs)"
    by (simp add: comment_inputs_def demo_inputs_def demo_clock_valid)
  have c: "files (snd (script demo_libs comment_inputs demo_world)) ''user_comments.txt''
        \<noteq> files demo_world ''user_comments.txt''"
    by (simp add: demo_comment_files) (simp add: demo_world_def)
  have l: "files (snd (script demo_libs like_inputs classified_world)) ''feedback.txt''
        \<noteq> files classified_world ''feedback.txt''"
    by (simp add: demo_like_files classified_world_fields)
  note t1 = appended_records [of comment_inputs demo_libs demo_world]
  note t2 = appended_records [of like_inputs demo_libs classified_world]
  have a: "files (snd (script demo_libs comment_inputs demo_world)) ''user_comments.txt''
        = files demo_world ''user_comments.txt'' @ str_datetime (clock comment_inputs) @ '': ''
            @ comment_text comment_inputs @ [newline]
      \<and> contains_timestamp
        (str_datetime (clock comment_inputs) @ '': '' @ comment_text comment_inputs @ [newline])"
    using t1 [THEN conjunct1] v c by simp
  have b: "\<exists>fn. ss_new_filename (session classified_world) = Some fn
          \<and> files (snd (script demo_libs like_inputs classified_world)) ''feedback.txt''
              = files classified_world ''feedback.txt''
                @ (if like_clicked like_inputs then ''Like for '' @ fn @ [newline] else [])
                @ (if dislike_clicked like_inputs then ''Dislike for '' @ fn @ [newline] else [])"
    using t2 [THEN conjunct2] l by (rule mp)
  show ?thesis using v c a l b by (intro conjI) simp_all
qed



subsection \<open>Submitting a comment\<close>




subsection \<open>Where a failing step leaves the run\<close>

lemma ends_atI:
  assumes "script L inp w = (Some e, w')" and "trace w' = trace w @ pre @ [c]" and "c \<notin> set pre"
  shows "ends_at L inp w e c"
  using assms by (simp add: ends_at_def run_events_def count_list_0_iff)

text \<open>Lines 42-53: how a run on the "Image Classifier" page comes to its image.\<close>

lemma script_classifier_image:
  fixes L :: "('i, 't, 'm, 'f) libs" and w :: "('i, 'm, 'f) world"
  assumes page: "radio_choice inp \<noteq> 1" and img: "run_image L inp w = Some img"
  shows "\<exists>w2 opened. script L inp w = classify_image L img w2
           \<and> trace w2 = trace w @ [Sidebar_title ''Navigation'',
                 Title ''ResNet-50 Image Classifier'', Call_file_uploader upload_types] @ opened
           \<and> (opened = [] \<or> (\<exists>b. opened = [Call_image_open b]))
           \<and> model_cache w2 = model_cache w"
proof -
  let ?w0 = "emit (Sidebar_title ''Navigation'') w"
  let ?w1 = "emit (Call_file_uploader upload_types) (emit (Title ''ResNet-50 Image Classifier'') ?w0)"
  let ?head = "[Sidebar_title ''Navigation'', Title ''ResNet-50 Image Classifier'',
                Call_file_uploader upload_types] :: ('i, 'f) event list"
  have t1: "trace ?w1 = trace w @ ?head @ []" "model_cache ?w1 = model_cache w"
    by (simp_all add: emit_simps)
  show ?thesis
  proof (cases "file_uploader L upload_types (uploaded inp)")
    case (Inl e)
    then show ?thesis using img by (simp add: run_image_def)
  next
    case res: (Inr upl)
    show ?thesis
    proof (cases upl)
      case None
      then have s: "ss_img (session w) = Some img" using img res by (simp add: run_image_def)
      then have "current_image L None ?w1 = (Inr img, ?w1)"
        by (simp add: current_image_def emit_simps)
      then have "classifier_page L inp ?w0 = classify_image L img ?w1"
        using res None s by (simp add: classifier_page_def Let_def emit_simps)
      then have "script L inp w = classify_image L img ?w1"
        using page by (simp add: script_classifier)
      then show ?thesis using t1 by blast
    next
      case (Some u)
      let ?w2 = "(emit (Call_image_open (up_content u)) ?w1)\<lparr>session := (session ?w1)\<lparr>ss_img := Some img\<rparr>\<rparr>"
      have op: "image_open L (up_content u) = Inr img"
        using img res Some by (simp add: run_image_def split: sum.splits)
      then have "current_image L (Some u) ?w1 = (Inr img, ?w2)"
        by (simp add: current_image_def)
      then have "classifier_page L inp ?w0 = classify_image L img ?w2"
        using res Some by (simp add: classifier_page_def Let_def)
      then have "script L inp w = classify_image L img ?w2"
        using page by (simp add: script_classifier)
      moreover have "trace ?w2 = trace w @ ?head @ [Call_image_open (up_content u)]"
        "model_cache ?w2 = model_cache w"
        by (simp_all add: emit_simps)
      ultimately show ?thesis by blast
    qed
  qed
qed

text \<open>Line 55, when it yields the network.\<close>

lemma load_model_Some:
  assumes "run_model L w = Some model"
  shows "\<exists>w1. load_model L w = (Inr model, w1)
           \<and> trace w1 = trace w @ (if model_cache w = None then [Call_resnet50] else [])
           \<and> session w1 = session w"
  using assms
  by (auto simp: run_model_def load_model_def emit_simps split: option.splits sum.splits)

text \<open>Lines 53-104, up to each step that can fail.\<close>

lemma classify_load_fails:
  assumes "model_cache w = None" and "resnet50 L = Inl e"
  shows "classify_image L img w = (Some e, emit Call_resnet50 w)"
  using assms by (simp add: classify_image_def predict_and_interpret_def load_model_def)

lemma classify_preprocess_fails:
  assumes m: "run_model L w = Some model" and "preprocess_func L img = Inl e"
  shows "\<exists>w'. classify_image L img w = (Some e, w')
           \<and> trace w' = trace w @ (if model_cache w = None then [Call_resnet50] else [])
                 @ [Call_preprocess]"
proof -
  from load_model_Some [OF m] obtain w1 where
    l: "load_model L w = (Inr model, w1)"
       "trace w1 = trace w @ (if model_cache w = None then [Call_resnet50] else [])"
    by blast
  have "classify_image L img w = (Some e, emit Call_preprocess w1)"
    using assms(2) l(1) by (simp add: classify_image_def predict_and_interpret_def)
  then show ?thesis using l(2) by (simp add: emit_simps)
qed

lemma classify_model_fails:
  assumes m: "run_model L w = Some model" and "preprocess_func L img = Inr x"
    and "softmax_out L model x = Inl e"
  shows "\<exists>w'. classify_image L img w = (Some e, w')
           \<and> trace w' = trace w @ ((if model_cache w = None then [Call_resnet50] else [])
                 @ [Call_preprocess]) @ [Call_model]"
proof -
  from load_model_Some [OF m] obtain w1 where
    l: "load_model L w = (Inr model, w1)"
       "trace w1 = trace w @ (if model_cache w = None then [Call_resnet50] else [])"
    by blast
  have "classify_image L img w = (Some e, emit Call_model (emit Call_preprocess w1))"
    using assms(2,3) l(1)
    by (simp add: classify_image_def predict_and_interpret_def make_prediction_def)
  then show ?thesis using l(2) by (simp add: emit_simps)
qed

lemma classify_no_index:
  assumes m: "run_model L w = Some model" and "preprocess_func L img = Inr x"
    and "softmax_out L model x = Inr probs" and "snd (top_five probs) = []"
  shows "\<exists>w'. classify_image L img w = (Some IndexError, w')
           \<and> trace w' = trace w @ ((if model_cache w = None then [Call_resnet50] else [])
                 @ [Call_preprocess]) @ [Call_model]"
proof -
  from load_model_Some [OF m] obtain w1 where
    l: "load_model L w = (Inr model, w1)"
       "trace w1 = trace w @ (if model_cache w = None then [Call_resnet50] else [])"
    by blast
  obtain pr where "top_five probs = (pr, [])"
    using assms(4) by (cases "top_five probs") simp
  then have "classify_image L img w = (Some IndexError, emit Call_model (emit Call_preprocess w1))"
    using assms(2,3) l(1)
    by (simp add: classify_image_def predict_and_interpret_def make_prediction_def)
  then show ?thesis using l(2) by (simp add: emit_simps)
qed

lemma classify_attribute_fails:
  assumes m: "run_model L w = Some model" and "preprocess_func L img = Inr x"
    and "softmax_out L model x = Inr probs" and "snd (top_five probs) = t # rest"
    and "ig_attribute L model x t = Inl e"
  shows "\<exists>w'. classify_image L img w = (Some e, w')
           \<and> trace w' = trace w @ ((if model_cache w = None then [Call_resnet50] else [])
                 @ [Call_preprocess, Call_model]) @ [Call_attribute t]"
proof -
  from load_model_Some [OF m] obtain w1 where
    l: "load_model L w = (Inr model, w1)"
       "trace w1 = trace w @ (if model_cache w = None then [Call_resnet50] else [])"
    by blast
  obtain pr where "top_five probs = (pr, t # rest)"
    using assms(4) by (cases "top_five probs") simp
  then have "classify_image L img w
               = (Some e, emit (Call_attribute t) (emit Call_model (emit Call_preprocess w1)))"
    using assms(2,3,5) l(1)
    by (simp add: classify_image_def predict_and_interpret_def make_prediction_def
          interpret_prediction_def)
  then show ?thesis using l(2) by (simp add: emit_simps)
qed

lemma classify_categories_fail:
  assumes m: "run_model L w = Some model" and "preprocess_func L img = Inr x"
    and "softmax_out L model x = Inr probs" and "snd (top_five probs) = t # rest"
    and "ig_attribute L model x t = Inr f"
    and "\<not> list_all (\<lambda>i. i < length (categories L)) (t # rest)"
  shows "\<exists>w'. classify_image L img w = (Some IndexError, w')
           \<and> trace w' = trace w @ ((if model_cache w = None then [Call_resnet50] else [])
                 @ [Call_preprocess, Call_model]) @ [Call_attribute t]"
proof -
  from load_model_Some [OF m] obtain w1 where
    l: "load_model L w = (Inr model, w1)"
       "trace w1 = trace w @ (if model_cache w = None then [Call_resnet50] else [])"
    by blast
  let ?w4 = "emit (Call_attribute t) (emit Call_model (emit Call_preprocess w1))"
  obtain pr where tf: "top_five probs = (pr, t # rest)"
    using assms(4) by (cases "top_five probs") simp
  then have pr: "fst (top_five probs) = pr" by simp
  let ?w5 = "?w4\<lparr>session := (session ?w4)
                  \<lparr>ss_probs := Some pr, ss_idxs := Some (t # rest),
                   ss_feature_imp := Some f\<rparr>\<rparr>"
  have p: "predict_and_interpret L img w = (Inr (pr, t # rest, f), ?w5)"
    using assms(2,3,5) l(1) tf
    by (simp add: predict_and_interpret_def make_prediction_def interpret_prediction_def)
  have ic: "index_categories (categories L) (t # rest) = Inl IndexError"
    using assms(6) by (simp add: index_categories_def)
  have "classify_image L img w = (Some IndexError, ?w5)"
    by (simp add: classify_image_def p render_plots_def ic)
  moreover have "trace ?w5 = trace w @ ((if model_cache w = None then [Call_resnet50] else [])
                 @ [Call_preprocess, Call_model]) @ [Call_attribute t]"
    using l(2) by (simp add: emit_simps)
  ultimately show ?thesis by blast
qed

lemma classify_save_fails:
  fixes L :: "('i, 't, 'm, 'f) libs" and w :: "('i, 'm, 'f) world"
  assumes m: "run_model L w = Some model" and "preprocess_func L img = Inr x"
    and "softmax_out L model x = Inr probs" and "snd (top_five probs) = t # rest"
    and "ig_attribute L model x t = Inr f"
    and "list_all (\<lambda>i. i < length (categories L)) (t # rest)"
    and "image_save L img (upper (lower (image_format L img))) = Inl e"
  shows "\<exists>w'. classify_image L img w = (Some e, w')
           \<and> trace w' = trace w @ ((if model_cache w = None then [Call_resnet50] else [])
                 @ [Call_preprocess, Call_model, Call_attribute t,
                    Plot_top5 (rev (map (\<lambda>i. categories L ! i) (t # rest)))
                      (rev (fst (top_five probs))),
                    Plot_image img, Plot_attribution f])
                 @ [Call_image_save (upper (lower (image_format L img)))]"
proof -
  from load_model_Some [OF m] obtain w1 where
    l: "load_model L w = (Inr model, w1)"
       "trace w1 = trace w @ (if model_cache w = None then [Call_resnet50] else [])"
    by blast
  let ?w4 = "emit (Call_attribute t) (emit Call_model (emit Call_preprocess w1))"
  obtain pr where tf: "top_five probs = (pr, t # rest)"
    using assms(4) by (cases "top_five probs") simp
  then have pr: "fst (top_five probs) = pr" by simp
  let ?w5 = "?w4\<lparr>session := (session ?w4)
                  \<lparr>ss_probs := Some pr, ss_idxs := Some (t # rest),
                   ss_feature_imp := Some f\<rparr>\<rparr>"
  have p: "predict_and_interpret L img w = (Inr (pr, t # rest, f), ?w5)"
    using assms(2,3,5) l(1) tf
    by (simp add: predict_and_interpret_def make_prediction_def interpret_prediction_def)
  have ic: "index_categories (categories L) (t # rest)
              = Inr (map (\<lambda>i. categories L ! i) (t # rest))"
    using assms(6) by (simp add: index_categories_def)
  obtain r w' where k: "classify_image L img w = (r, w')"
    by (cases "classify_image L img w") auto
  have "r = Some e \<and> trace w' = trace ?w5 @ [Plot_top5 (rev (map (\<lambda>i. categories L ! i) (t # rest)))
                      (rev pr),
                    Plot_image img, Plot_attribution f,
                    Call_image_save (upper (lower (image_format L img)))]"
    using k assms(7) ic
    by (auto simp: classify_image_def p render_plots_def offer_download_def Let_def emit_simps)
  then show ?thesis using k l(2) pr by (simp add: emit_simps)
qed


text \<open>The same at the level of the run.\<close>

lemma classifier_step_ends:
  fixes L :: "('i, 't, 'm, 'f) libs" and w :: "('i, 'm, 'f) world"
  assumes page: "sidebar_radio nav_options (radio_choice inp) = ''Image Classifier''"
    and img: "run_image L inp w = Some img"
    and step: "\<And>w2 :: ('i, 'm, 'f) world. model_cache w2 = model_cache w \<Longrightarrow>
                 \<exists>w'. classify_image L img w2 = (Some e, w') \<and> trace w' = trace w2 @ mid @ [c]"
    and fresh: "c \<notin> set mid" "\<And>b. c \<noteq> Call_image_open b"
      "c \<noteq> Sidebar_title ''Navigation''" "c \<noteq> Title ''ResNet-50 Image Classifier''"
      "c \<noteq> Call_file_uploader upload_types"
  shows "ends_at L inp w e c"
proof -
  have p: "radio_choice inp \<noteq> 1" using page by (simp add: page_classifier_iff)
  from script_classifier_image [OF p img] obtain w2 opened where
    a: "script L inp w = classify_image L img w2"
       "trace w2 = trace w @ [Sidebar_title ''Navigation'',
                 Title ''ResNet-50 Image Classifier'', Call_file_uploader upload_types] @ opened"
       "opened = [] \<or> (\<exists>b. opened = [Call_image_open b])"
       "model_cache w2 = model_cache w"
    by blast
  from step [OF a(4)] obtain w' where
    b: "classify_image L img w2 = (Some e, w')" "trace w' = trace w2 @ mid @ [c]"
    by blast
  let ?pre = "([Sidebar_title ''Navigation'', Title ''ResNet-50 Image Classifier'',
                Call_file_uploader upload_types] @ opened) @ mid"
  have s: "script L inp w = (Some e, w')" using a(1) b(1) by simp
  have t: "trace w' = trace w @ ?pre @ [c]" using a(2) b(2) by simp
  have n: "c \<notin> set ?pre" using a(3) fresh by auto
  show ?thesis using s t n by (rule ends_atI)
qed

lemma uploader_fails:
  fixes L :: "('i, 't, 'm, 'f) libs" and w :: "('i, 'm, 'f) world"
  assumes page: "sidebar_radio nav_options (radio_choice inp) = ''Image Classifier''"
    and "file_uploader L upload_types (uploaded inp) = Inl e"
  shows "ends_at L inp w e (Call_file_uploader upload_types)"
proof -
  have p: "radio_choice inp \<noteq> 1" using page by (simp add: page_classifier_iff)
  let ?w0 = "emit (Sidebar_title ''Navigation'') w"
  let ?w1 = "emit (Call_file_uploader upload_types) (emit (Title ''ResNet-50 Image Classifier'') ?w0)"
  have "script L inp w = (Some e, ?w1)"
    using p assms(2) by (simp add: script_classifier classifier_page_def Let_def)
  moreover have "trace ?w1 = trace w @ [Sidebar_title ''Navigation'',
      Title ''ResNet-50 Image Classifier''] @ [Call_file_uploader upload_types]"
    by (simp add: emit_simps)
  moreover have "Call_file_uploader upload_types
      \<notin> set ([Sidebar_title ''Navigation'', Title ''ResNet-50 Image Classifier''] :: ('i, 'f) event list)"
    by simp
  ultimately show ?thesis by (rule ends_atI)
qed

lemma image_open_fails:
  fixes L :: "('i, 't, 'm, 'f) libs" and w :: "('i, 'm, 'f) world"
  assumes page: "sidebar_radio nav_options (radio_choice inp) = ''Image Classifier''"
    and acc: "file_uploader L upload_types (uploaded inp) = Inr (Some u)"
    and op: "image_open L (up_content u) = Inl e"
  shows "ends_at L inp w e (Call_image_open (up_content u))"
proof -
  have p: "radio_choice inp \<noteq> 1" using page by (simp add: page_classifier_iff)
  let ?w0 = "emit (Sidebar_title ''Navigation'') w"
  let ?w1 = "emit (Call_file_uploader upload_types) (emit (Title ''ResNet-50 Image Classifier'') ?w0)"
  let ?w2 = "emit (Call_image_open (up_content u)) ?w1"
  have ci: "current_image L (Some u) ?w1 = (Inl e, ?w2)"
    using op by (simp add: current_image_def)
  have "script L inp w = (Some e, ?w2)"
    using p acc ci by (simp add: script_classifier classifier_page_def Let_def)
  moreover have "trace ?w2 = trace w @ [Sidebar_title ''Navigation'',
      Title ''ResNet-50 Image Classifier'', Call_file_uploader upload_types]
      @ [Call_image_open (up_content u)]"
    by (simp add: emit_simps)
  moreover have "Call_image_open (up_content u)
      \<notin> set ([Sidebar_title ''Navigation'', Title ''ResNet-50 Image Classifier'',
               Call_file_uploader upload_types] :: ('i, 'f) event list)"
    by simp
  ultimately show ?thesis by (rule ends_atI)
qed

lemma load_fails:
  fixes L :: "('i, 't, 'm, 'f) libs" and w :: "('i, 'm, 'f) world"
  assumes page: "sidebar_radio nav_options (radio_choice inp) = ''Image Classifier''"
    and img: "run_image L inp w = Some img"
    and cache: "model_cache w = None" and load: "resnet50 L = Inl e"
  shows "ends_at L inp w e Call_resnet50"
proof (rule classifier_step_ends [OF page img, where mid = "[]"])
  fix w2 :: "('i, 'm, 'f) world"
  assume "model_cache w2 = model_cache w"
  then have "model_cache w2 = None" using cache by simp
  then have "classify_image L img w2 = (Some e, emit Call_resnet50 w2)"
    using load by (rule classify_load_fails)
  then show "\<exists>w'. classify_image L img w2 = (Some e, w') \<and> trace w' = trace w2 @ [] @ [Call_resnet50]"
    by (simp add: emit_simps)
qed simp_all

lemma preprocess_fails:
  fixes L :: "('i, 't, 'm, 'f) libs" and w :: "('i, 'm, 'f) world"
  assumes page: "sidebar_radio nav_options (radio_choice inp) = ''Image Classifier''"
    and img: "run_image L inp w = Some img"
    and m: "run_model L w = Some model" and f: "preprocess_func L img = Inl e"
  shows "ends_at L inp w e Call_preprocess"
proof (rule classifier_step_ends [OF page img,
         where mid = "if model_cache w = None then [Call_resnet50] else []"])
  fix w2 :: "('i, 'm, 'f) world"
  assume c: "model_cache w2 = model_cache w"
  then have "run_model L w2 = Some model" using m by (simp add: run_model_def)
  from classify_preprocess_fails [OF this f]
  show "\<exists>w'. classify_image L img w2 = (Some e, w')
          \<and> trace w' = trace w2 @ (if model_cache w = None then [Call_resnet50] else [])
                @ [Call_preprocess]"
    using c by simp
qed simp_all

lemma model_fails:
  fixes L :: "('i, 't, 'm, 'f) libs" and w :: "('i, 'm, 'f) world"
  assumes page: "sidebar_radio nav_options (radio_choice inp) = ''Image Classifier''"
    and img: "run_image L inp w = Some img"
    and m: "run_model L w = Some model" and x: "preprocess_func L img = Inr x"
    and f: "softmax_out L model x = Inl e"
  shows "ends_at L inp w e Call_model"
proof (rule classifier_step_ends [OF page img,
         where mid = "(if model_cache w = None then [Call_resnet50] else []) @ [Call_preprocess]"])
  fix w2 :: "('i, 'm, 'f) world"
  assume c: "model_cache w2 = model_cache w"
  then have "run_model L w2 = Some model" using m by (simp add: run_model_def)
  from classify_model_fails [OF this x f]
  show "\<exists>w'. classify_image L img w2 = (Some e, w')
          \<and> trace w' = trace w2 @ ((if model_cache w = None then [Call_resnet50] else [])
                @ [Call_preprocess]) @ [Call_model]"
    using c by simp
qed simp_all

lemma no_index_fails:
  fixes L :: "('i, 't, 'm, 'f) libs" and w :: "('i, 'm, 'f) world"
  assumes page: "sidebar_radio nav_options (radio_choice inp) = ''Image Classifier''"
    and img: "run_image L inp w = Some img"
    and m: "run_model L w = Some model" and x: "preprocess_func L img = Inr x"
    and pr: "softmax_out L model x = Inr probs" and f: "snd (top_five probs) = []"
  shows "ends_at L inp w IndexError Call_model"
proof (rule classifier_step_ends [OF page img,
         where mid = "(if model_cache w = None then [Call_resnet50] else []) @ [Call_preprocess]"])
  fix w2 :: "('i, 'm, 'f) world"
  assume c: "model_cache w2 = model_cache w"
  then have "run_model L w2 = Some model" using m by (simp add: run_model_def)
  from classify_no_index [OF this x pr f]
  show "\<exists>w'. classify_image L img w2 = (Some IndexError, w')
          \<and> trace w' = trace w2 @ ((if model_cache w = None then [Call_resnet50] else [])
                @ [Call_preprocess]) @ [Call_model]"
    using c by simp
qed simp_all

lemma attribute_fails:
  fixes L :: "('i, 't, 'm, 'f) libs" and w :: "('i, 'm, 'f) world"
  assumes page: "sidebar_radio nav_options (radio_choice inp) = ''Image Classifier''"
    and img: "run_image L inp w = Some img"
    and m: "run_model L w = Some model" and x: "preprocess_func L img = Inr x"
    and pr: "softmax_out L model x = Inr probs" and t: "snd (top_five probs) = t # rest"
    and f: "ig_attribute L model x t = Inl e"
  shows "ends_at L inp w e (Call_attribute t)"
proof (rule classifier_step_ends [OF page img,
         where mid = "(if model_cache w = None then [Call_resnet50] else [])
                        @ [Call_preprocess, Call_model]"])
  fix w2 :: "('i, 'm, 'f) world"
  assume c: "model_cache w2 = model_cache w"
  then have "run_model L w2 = Some model" using m by (simp add: run_model_def)
  from classify_attribute_fails [OF this x pr t f]
  show "\<exists>w'. classify_image L img w2 = (Some e, w')
          \<and> trace w' = trace w2 @ ((if model_cache w = None then [Call_resnet50] else [])
                @ [Call_preprocess, Call_model]) @ [Call_attribute t]"
    using c by simp
qed simp_all

lemma categories_fail:
  fixes L :: "('i, 't, 'm, 'f) libs" and w :: "('i, 'm, 'f) world"
  assumes page: "sidebar_radio nav_options (radio_choice inp) = ''Image Classifier''"
    and img: "run_image L inp w = Some img"
    and m: "run_model L w = Some model" and x: "preprocess_func L img = Inr x"
    and pr: "softmax_out L model x = Inr probs" and t: "snd (top_five probs) = t # rest"
    and a: "ig_attribute L model x t = Inr f"
    and f: "\<not> list_all (\<lambda>i. i < length (categories L)) (t # rest)"
  shows "ends_at L inp w IndexError (Call_attribute t)"
proof (rule classifier_step_ends [OF page img,
         where mid = "(if model_cache w = None then [Call_resnet50] else [])
                        @ [Call_preprocess, Call_model]"])
  fix w2 :: "('i, 'm, 'f) world"
  assume c: "model_cache w2 = model_cache w"
  then have "run_model L w2 = Some model" using m by (simp add: run_model_def)
  from classify_categories_fail [OF this x pr t a f]
  show "\<exists>w'. classify_image L img w2 = (Some IndexError, w')
          \<and> trace w' = trace w2 @ ((if model_cache w = None then [Call_resnet50] else [])
                @ [Call_preprocess, Call_model]) @ [Call_attribute t]"
    using c by simp
qed simp_all

lemma image_save_fails:
  fixes L :: "('i, 't, 'm, 'f) libs" and w :: "('i, 'm, 'f) world"
  assumes page: "sidebar_radio nav_options (radio_choice inp) = ''Image Classifier''"
    and img: "run_image L inp w = Some img"
    and m: "run_model L w = Some model" and x: "preprocess_func L img = Inr x"
    and pr: "softmax_out L model x = Inr probs" and t: "snd (top_five probs) = t # rest"
    and a: "ig_attribute L model x t = Inr f"
    and c: "list_all (\<lambda>i. i < length (categories L)) (t # rest)"
    and f: "image_save L img (upper (lower (image_format L img))) = Inl e"
  shows "ends_at L inp w e (Call_image_save (upper (lower (image_format L img))))"
proof (rule classifier_step_ends [OF page img,
         where mid = "(if model_cache w = None then [Call_resnet50] else [])
                 @ [Call_preprocess, Call_model, Call_attribute t,
                    Plot_top5 (rev (map (\<lambda>i. categories L ! i) (t # rest)))
                      (rev (fst (top_five probs))),
                    Plot_image img, Plot_attribution f]"])
  fix w2 :: "('i, 'm, 'f) world"
  assume k: "model_cache w2 = model_cache w"
  then have "run_model L w2 = Some model" using m by (simp add: run_model_def)
  from classify_save_fails [OF this x pr t a c f]
  show "\<exists>w'. classify_image L img w2 = (Some e, w')
          \<and> trace w' = trace w2 @ ((if model_cache w = None then [Call_resnet50] else [])
                 @ [Call_preprocess, Call_model, Call_attribute t,
                    Plot_top5 (rev (map (\<lambda>i. categories L ! i) (t # rest)))
                      (rev (fst (top_five probs))),
                    Plot_image img, Plot_attribution f])
                 @ [Call_image_save (upper (lower (image_format L img)))]"
    using k by simp
qed simp_all

text \<open>Lines 115-126 and 129-133, where a file cannot be opened or a text not be encoded.\<close>

lemma feedback_section_fails:
  assumes fn: "ss_new_filename (session w) = Some fn"
    and click: "like_clicked inp \<or> dislike_clicked inp"
  shows "\<not> writable w ''feedback.txt'' \<Longrightarrow>
           feedback_section inp w = (Some OSError, emit (Call_open_append ''feedback.txt'') w)"
    and "writable w ''feedback.txt'' \<Longrightarrow> \<not> encodable w fn \<Longrightarrow>
           feedback_section inp w
             = (Some UnicodeEncodeError,
                emit (Call_write ''feedback.txt'') (emit (Call_open_append ''feedback.txt'') w))"
  using fn click
  by (auto simp: feedback_section_def feedback_button_def append_file_def
        encodable_feedback_line [simplified])

lemma feedback_fails:
  fixes L :: "('i, 't, 'm, 'f) libs" and w :: "('i, 'm, 'f) world"
  assumes page: "sidebar_radio nav_options (radio_choice inp) = ''Connect to Us''"
    and fn: "ss_new_filename (session w) = Some fn"
    and click: "like_clicked inp \<or> dislike_clicked inp"
  shows "\<not> writable w ''feedback.txt'' \<Longrightarrow>
           ends_at L inp w OSError (Call_open_append ''feedback.txt'')
           \<and> files (snd (script L inp w)) = files w"
    and "writable w ''feedback.txt'' \<Longrightarrow> \<not> encodable w fn \<Longrightarrow>
           ends_at L inp w UnicodeEncodeError (Call_write ''feedback.txt'')
           \<and> files (snd (script L inp w)) = files w"
proof -
  have p: "radio_choice inp = 1" using page by (simp add: page_connect_iff)
  let ?w0 = "emit (Sidebar_title ''Navigation'') w :: ('i, 'm, 'f) world"
  let ?w4 = "emit (Write ''Did you find the output useful?'')
               (emit (Subheader ''Feedback'')
                 (emit (Write ''We'd love to hear from you!'')
                   (emit (Title ''Connect to Us'') ?w0)))"
  let ?head = "[Sidebar_title ''Navigation'', Title ''Connect to Us'',
                Write ''We'd love to hear from you!'', Subheader ''Feedback'',
                Write ''Did you find the output useful?''] :: ('i, 'f) event list"
  have w4: "ss_new_filename (session ?w4) = Some fn" "writable ?w4 = writable w"
    "encodable ?w4 = encodable w" "trace ?w4 = trace w @ ?head" "files ?w4 = files w"
    using fn by (simp_all add: emit_simps)
  {
    assume ro: "\<not> writable w ''feedback.txt''"
    let ?w' = "emit (Call_open_append ''feedback.txt'') ?w4"
    have "feedback_section inp ?w4 = (Some OSError, ?w')"
      using ro w4(2) by (intro feedback_section_fails(1) [OF w4(1) click]) simp
    then have s: "script L inp w = (Some OSError, ?w')"
      using p by (simp add: script_connect connect_page_def)
    have t: "trace ?w' = trace w @ ?head @ [Call_open_append ''feedback.txt'']"
      by (simp add: emit_simps)
    have n: "Call_open_append ''feedback.txt'' \<notin> set ?head" by simp
    have "ends_at L inp w OSError (Call_open_append ''feedback.txt'')"
      using s t n by (rule ends_atI)
    moreover have "files (snd (script L inp w)) = files w" by (simp add: s emit_simps)
    ultimately show "ends_at L inp w OSError (Call_open_append ''feedback.txt'')
           \<and> files (snd (script L inp w)) = files w" by (rule conjI)
  }
  {
    assume wr: "writable w ''feedback.txt''" and ne: "\<not> encodable w fn"
    let ?w' = "emit (Call_write ''feedback.txt'') (emit (Call_open_append ''feedback.txt'') ?w4)"
    have "feedback_section inp ?w4 = (Some UnicodeEncodeError, ?w')"
      using wr ne w4(2,3) by (intro feedback_section_fails(2) [OF w4(1) click]) simp_all
    then have s: "script L inp w = (Some UnicodeEncodeError, ?w')"
      using p by (simp add: script_connect connect_page_def)
    have t: "trace ?w' = trace w @ (?head @ [Call_open_append ''feedback.txt''])
                @ [Call_write ''feedback.txt'']"
      by (simp add: emit_simps)
    have n: "Call_write ''feedback.txt'' \<notin> set (?head @ [Call_open_append ''feedback.txt''])"
      by simp
    have "ends_at L inp w UnicodeEncodeError (Call_write ''feedback.txt'')"
      using s t n by (rule ends_atI)
    moreover have "files (snd (script L inp w)) = files w" by (simp add: s emit_simps)
    ultimately show "ends_at L inp w UnicodeEncodeError (Call_write ''feedback.txt'')
           \<and> files (snd (script L inp w)) = files w" by (rule conjI)
  }
qed

text \<open>What the feedback section leaves when it completes.\<close>

lemma feedback_section_completed:
  fixes w :: "('i, 'm, 'f) world"
  assumes "feedback_succeeds inp w"
  shows "\<exists>w1 evs. feedback_section inp w = (None, w1)
           \<and> trace w1 = trace w @ evs
           \<and> Call_open_append ''user_comments.txt'' \<notin> set evs
           \<and> Call_write ''user_comments.txt'' \<notin> set evs
           \<and> writable w1 = writable w \<and> encodable w1 = encodable w
           \<and> files w1 ''user_comments.txt'' = files w ''user_comments.txt''"
proof -
  obtain r w1 where a: "feedback_section inp w = (r, w1)"
    by (cases "feedback_section inp w") auto
  have r: "r = None" using assms a feedback_section_completes [of inp w] by simp
  have e: "encodable w1 = encodable w" using feedback_section_encodable [of inp w] a by simp
  have "\<exists>evs. trace w1 = trace w @ evs
           \<and> Call_open_append ''user_comments.txt'' \<notin> set evs
           \<and> Call_write ''user_comments.txt'' \<notin> set evs"
    using a
    by (auto simp: feedback_section_def feedback_button_def append_file_def emit_simps
        split: option.splits if_splits prod.splits)
  moreover have "writable w1 = writable w"
    using feedback_section_frame [OF a] by (elim conjE) assumption
  moreover have "files w1 ''user_comments.txt'' = files w ''user_comments.txt''"
  proof -
    have "\<forall>name. name \<noteq> ''feedback.txt'' \<longrightarrow> files w1 name = files w name"
      using feedback_section_frame [OF a] by (elim conjE) assumption
    then show ?thesis by simp
  qed
  ultimately show ?thesis using a r e by blast
qed

lemma comment_fails:
  fixes L :: "('i, 't, 'm, 'f) libs" and w :: "('i, 'm, 'f) world"
  assumes page: "sidebar_radio nav_options (radio_choice inp) = ''Connect to Us''"
    and fs: "feedback_succeeds inp w" and sub: "submit_clicked inp"
  shows "\<not> writable w ''user_comments.txt'' \<Longrightarrow>
           ends_at L inp w OSError (Call_open_append ''user_comments.txt'')
           \<and> files (snd (script L inp w)) ''user_comments.txt'' = files w ''user_comments.txt''"
    and "writable w ''user_comments.txt'' \<Longrightarrow> \<not> encodable w (comment_text inp) \<Longrightarrow>
           ends_at L inp w UnicodeEncodeError (Call_write ''user_comments.txt'')
           \<and> files (snd (script L inp w)) ''user_comments.txt'' = files w ''user_comments.txt''"
proof -
  have p: "radio_choice inp = 1" using page by (simp add: page_connect_iff)
  let ?w0 = "emit (Sidebar_title ''Navigation'') w :: ('i, 'm, 'f) world"
  let ?w4 = "emit (Write ''Did you find the output useful?'')
               (emit (Subheader ''Feedback'')
                 (emit (Write ''We'd love to hear from you!'')
                   (emit (Title ''Connect to Us'') ?w0)))"
  let ?head = "[Sidebar_title ''Navigation'', Title ''Connect to Us'',
                Write ''We'd love to hear from you!'', Subheader ''Feedback'',
                Write ''Did you find the output useful?''] :: ('i, 'f) event list"
  have w4: "writable ?w4 = writable w" "encodable ?w4 = encodable w"
    "trace ?w4 = trace w @ ?head" "files ?w4 = files w"
    by (simp_all add: emit_simps)
  have "feedback_succeeds inp ?w4" using fs by (simp add: feedback_succeeds_emit)
  from feedback_section_completed [OF this] obtain w1 evs where
    f: "feedback_section inp ?w4 = (None, w1)" "trace w1 = trace ?w4 @ evs"
       "Call_open_append ''user_comments.txt'' \<notin> set evs"
       "Call_write ''user_comments.txt'' \<notin> set evs"
       "writable w1 = writable ?w4" "encodable w1 = encodable ?w4"
       "files w1 ''user_comments.txt'' = files ?w4 ''user_comments.txt''"
    by blast
  have cp: "connect_page inp ?w0 = comment_section inp w1"
    using f(1) by (simp add: connect_page_def)
  {
    assume ro: "\<not> writable w ''user_comments.txt''"
    let ?w' = "emit (Call_open_append ''user_comments.txt'') w1"
    have "comment_section inp w1 = (Some OSError, ?w')"
      using sub ro f(5) w4(1) by (simp add: comment_section_def append_file_def)
    then have s: "script L inp w = (Some OSError, ?w')"
      using p cp by (simp add: script_connect)
    have t: "trace ?w' = trace w @ (?head @ evs) @ [Call_open_append ''user_comments.txt'']"
      using f(2) w4(3) by (simp add: emit_simps)
    have n: "Call_open_append ''user_comments.txt'' \<notin> set (?head @ evs)" using f(3) by simp
    have "ends_at L inp w OSError (Call_open_append ''user_comments.txt'')"
      using s t n by (rule ends_atI)
    moreover have "files (snd (script L inp w)) ''user_comments.txt'' = files w ''user_comments.txt''"
      using f(7) w4(4) by (simp add: s emit_simps)
    ultimately show "ends_at L inp w OSError (Call_open_append ''user_comments.txt'')
           \<and> files (snd (script L inp w)) ''user_comments.txt'' = files w ''user_comments.txt''"
      by (rule conjI)
  }
  {
    assume wr: "writable w ''user_comments.txt''" and ne: "\<not> encodable w (comment_text inp)"
    let ?w' = "emit (Call_write ''user_comments.txt'') (emit (Call_open_append ''user_comments.txt'') w1)"
    have "comment_section inp w1 = (Some UnicodeEncodeError, ?w')"
      using sub wr ne f(5,6) w4(1,2)
      by (simp add: comment_section_def append_file_def encodable_comment_record)
    then have s: "script L inp w = (Some UnicodeEncodeError, ?w')"
      using p cp by (simp add: script_connect)
    have t: "trace ?w' = trace w @ ((?head @ evs) @ [Call_open_append ''user_comments.txt''])
               @ [Call_write ''user_comments.txt'']"
      using f(2) w4(3) by (simp add: emit_simps)
    have n: "Call_write ''user_comments.txt''
               \<notin> set ((?head @ evs) @ [Call_open_append ''user_comments.txt''])"
      using f(4) by simp
    have "ends_at L inp w UnicodeEncodeError (Call_write ''user_comments.txt'')"
      using s t n by (rule ends_atI)
    moreover have "files (snd (script L inp w)) ''user_comments.txt'' = files w ''user_comments.txt''"
      using f(7) w4(4) by (simp add: s emit_simps)
    ultimately show "ends_at L inp w UnicodeEncodeError (Call_write ''user_comments.txt'')
           \<and> files (snd (script L inp w)) ''user_comments.txt'' = files w ''user_comments.txt''"
      by (rule conjI)
  }
qed

lemmas failing_libs_defs = no_weights_libs_def no_preprocess_libs_def no_forward_libs_def
  no_outputs_libs_def no_attribution_libs_def few_categories_libs_def no_save_libs_def

lemma demo_refused:
  "file_uploader demo_libs upload_types (uploaded gif_inputs) = Inl StreamlitAPIException"
  by (simp add: gif_inputs_def gif_upload_def demo_inputs_def demo_libs_def demo_uploader_def
        upload_types_def lower_gif)

lemma demo_bad_upload:
  "file_uploader demo_libs upload_types (uploaded bad_upload_inputs) = Inr (Some bad_upload)"
  "image_open demo_libs (up_content bad_upload) = Inl UnidentifiedImageError"
  "up_content bad_upload = ''oops''"
  by (simp_all add: bad_upload_inputs_def bad_upload_def demo_inputs_def demo_libs_def
        demo_uploader_def upload_types_def demo_open_def lower_upload_types [unfolded upload_types_def, simplified])

lemma demo_failing_image:
  "run_image no_weights_libs upload_inputs demo_world = Some (''JPEG'', ''abc'')"
  "run_image no_preprocess_libs upload_inputs demo_world = Some (''JPEG'', ''abc'')"
  "run_image no_forward_libs upload_inputs demo_world = Some (''JPEG'', ''abc'')"
  "run_image no_outputs_libs upload_inputs demo_world = Some (''JPEG'', ''abc'')"
  "run_image no_attribution_libs upload_inputs demo_world = Some (''JPEG'', ''abc'')"
  "run_image few_categories_libs upload_inputs demo_world = Some (''JPEG'', ''abc'')"
  "run_image no_save_libs upload_inputs demo_world = Some (''JPEG'', ''abc'')"
  by (simp_all add: run_image_def failing_libs_defs demo_defs)

lemma demo_failing_model:
  "model_cache demo_world = None"
  "resnet50 no_weights_libs = Inl ModelLoadError"
  "run_model no_preprocess_libs demo_world = Some ()"
  "run_model no_forward_libs demo_world = Some ()"
  "run_model no_outputs_libs demo_world = Some ()"
  "run_model no_attribution_libs demo_world = Some ()"
  "run_model few_categories_libs demo_world = Some ()"
  "run_model no_save_libs demo_world = Some ()"
  by (simp_all add: run_model_def failing_libs_defs demo_libs_def demo_world_def)

lemma demo_failing_steps:
  "preprocess_func no_preprocess_libs (''JPEG'', ''abc'') = Inl (LibraryError ''preprocess'')"
  "preprocess_func no_forward_libs (''JPEG'', ''abc'') = Inr (map of_char ''abc'')"
  "softmax_out no_forward_libs () (map of_char ''abc'') = Inl (LibraryError ''forward'')"
  "preprocess_func no_outputs_libs (''JPEG'', ''abc'') = Inr (map of_char ''abc'')"
  "softmax_out no_outputs_libs () (map of_char ''abc'') = Inr []"
  "snd (top_five ([] :: real list)) = []"
  "preprocess_func no_attribution_libs (''JPEG'', ''abc'') = Inr (map of_char ''abc'')"
  "softmax_out no_attribution_libs () (map of_char ''abc'') = Inr demo_probs"
  "snd (top_five demo_probs) = 2 # [3, 4, 5, 0]"
  "ig_attribute no_attribution_libs () (map of_char ''abc'') 2 = Inl (LibraryError ''attribute'')"
  "preprocess_func few_categories_libs (''JPEG'', ''abc'') = Inr (map of_char ''abc'')"
  "softmax_out few_categories_libs () (map of_char ''abc'') = Inr demo_probs"
  "ig_attribute few_categories_libs () (map of_char ''abc'') 2 = Inr 2"
  "\<not> list_all (\<lambda>i. i < length (categories few_categories_libs)) (2 # [3, 4, 5, 0])"
  "preprocess_func no_save_libs (''JPEG'', ''abc'') = Inr (map of_char ''abc'')"
  "softmax_out no_save_libs () (map of_char ''abc'') = Inr demo_probs"
  "ig_attribute no_save_libs () (map of_char ''abc'') 2 = Inr 2"
  "list_all (\<lambda>i. i < length (categories no_save_libs)) (2 # [3, 4, 5, 0])"
  "image_save no_save_libs (''JPEG'', ''abc'')
     (upper (lower (image_format no_save_libs (''JPEG'', ''abc'')))) = Inl (LibraryError ''save'')"
  by (simp_all add: failing_libs_defs demo_libs_def demo_top_five top_five_Nil
        demo_categories_def)


lemma demo_connect_pages:
  "sidebar_radio nav_options (radio_choice like_inputs) = ''Connect to Us''"
  "sidebar_radio nav_options (radio_choice dislike_inputs) = ''Connect to Us''"
  "sidebar_radio nav_options (radio_choice comment_inputs) = ''Connect to Us''"
  "sidebar_radio nav_options (radio_choice accent_inputs) = ''Connect to Us''"
  by (simp_all add: sidebar_radio_nav like_inputs_def dislike_inputs_def comment_inputs_def
        accent_inputs_def demo_inputs_def)

lemma demo_classifier_pages:
  "sidebar_radio nav_options (radio_choice gif_inputs) = ''Image Classifier''"
  "sidebar_radio nav_options (radio_choice bad_upload_inputs) = ''Image Classifier''"
  by (simp_all add: sidebar_radio_nav gif_inputs_def bad_upload_inputs_def demo_inputs_def)

lemma demo_feedback_failing:
  "ss_new_filename (session (read_only classified_world)) = Some ''tabby.jpeg''"
  "like_clicked like_inputs \<or> dislike_clicked like_inputs"
  "\<not> writable (read_only classified_world) ''feedback.txt''"
  "ss_new_filename (session accent_world) = Some (accent @ ''.jpeg'')"
  "like_clicked dislike_inputs \<or> dislike_clicked dislike_inputs"
  "writable accent_world ''feedback.txt''"
  "\<not> encodable accent_world (accent @ ''.jpeg'')"
  by (simp_all add: read_only_def accent_world_def classified_world_fields like_inputs_def
        dislike_inputs_def demo_inputs_def encodable_def accent_def)

lemma demo_comment_failing:
  "feedback_succeeds comment_inputs (read_only demo_world)"
  "submit_clicked comment_inputs"
  "\<not> writable (read_only demo_world) ''user_comments.txt''"
  "feedback_succeeds accent_inputs demo_world"
  "submit_clicked accent_inputs"
  "writable demo_world ''user_comments.txt''"
  "\<not> encodable demo_world (comment_text accent_inputs)"
  by (simp_all add: read_only_def feedback_succeeds_def demo_world_def empty_session_def
        comment_inputs_def accent_inputs_def demo_inputs_def encodable_def accent_def)

subsection \<open>Failures leave the script\<close>

text \<open>
  Claim C5. The script has no handler: at whichever step a run fails, it ends there with
  that exception; the failing call was made once and was the last thing the run did.
  On the "Image Classifier" page the steps are, in order: the uploader; opening the upload
  (bad image format); for the image of the run, uploaded or remembered, building the
  network when none is cached (model load failure); preprocessing; the forward pass;
  taking the first index; the attribution; indexing the category names; saving the image.
  On the "Connect to Us" page (file-write failure): with a stored file name and Like or
  Dislike pressed, opening feedback.txt and writing the line; and, when that part went
  through and Submit Comment is pressed, opening user_comments.txt and writing the record.
  A failed write leaves the file as it was.
\<close>

theorem failures_propagate:
  fixes L :: "('i, 't, 'm, 'f) libs" and w :: "('i, 'm, 'f) world"
  shows
  "(sidebar_radio nav_options (radio_choice inp) = ''Image Classifier'' \<longrightarrow>
      (\<forall>e. file_uploader L upload_types (uploaded inp) = Inl e
          \<longrightarrow> ends_at L inp w e (Call_file_uploader upload_types))
    \<and> (\<forall>u e. file_uploader L upload_types (uploaded inp) = Inr (Some u)
             \<and> image_open L (up_content u) = Inl e
          \<longrightarrow> ends_at L inp w e (Call_image_open (up_content u)))
    \<and> (\<forall>img. run_image L inp w = Some img \<longrightarrow>
         (\<forall>e. model_cache w = None \<and> resnet50 L = Inl e \<longrightarrow> ends_at L inp w e Call_resnet50)
       \<and> (\<forall>model. run_model L w = Some model \<longrightarrow>
            (\<forall>e. preprocess_func L img = Inl e \<longrightarrow> ends_at L inp w e Call_preprocess)
          \<and> (\<forall>x. preprocess_func L img = Inr x \<longrightarrow>
               (\<forall>e. softmax_out L model x = Inl e \<longrightarrow> ends_at L inp w e Call_model)
             \<and> (\<forall>probs. softmax_out L model x = Inr probs \<longrightarrow>
                  (snd (top_five probs) = [] \<longrightarrow> ends_at L inp w IndexError Call_model)
                \<and> (\<forall>t rest. snd (top_five probs) = t # rest \<longrightarrow>
                     (\<forall>e. ig_attribute L model x t = Inl e
                         \<longrightarrow> ends_at L inp w e (Call_attribute t))
                   \<and> (\<forall>f. ig_attribute L model x t = Inr f \<longrightarrow>
                        (\<not> list_all (\<lambda>i. i < length (categories L)) (t # rest)
                            \<longrightarrow> ends_at L inp w IndexError (Call_attribute t))
                      \<and> (\<forall>e. list_all (\<lambda>i. i < length (categories L)) (t # rest)
                             \<and> image_save L img (upper (lower (image_format L img))) = Inl e
                            \<longrightarrow> ends_at L inp w e
                                  (Call_image_save (upper (lower (image_format L img))))))))))))
   \<and> (sidebar_radio nav_options (radio_choice inp) = ''Connect to Us'' \<longrightarrow>
      (\<forall>fn. ss_new_filename (session w) = Some fn
             \<and> (like_clicked inp \<or> dislike_clicked inp) \<longrightarrow>
         (\<not> writable w ''feedback.txt''
            \<longrightarrow> ends_at L inp w OSError (Call_open_append ''feedback.txt'')
                \<and> files (snd (script L inp w)) = files w)
       \<and> (writable w ''feedback.txt'' \<and> \<not> encodable w fn
            \<longrightarrow> ends_at L inp w UnicodeEncodeError (Call_write ''feedback.txt'')
                \<and> files (snd (script L inp w)) = files w))
    \<and> (feedback_succeeds inp w \<and> submit_clicked inp \<longrightarrow>
         (\<not> writable w ''user_comments.txt''
            \<longrightarrow> ends_at L inp w OSError (Call_open_append ''user_comments.txt'')
                \<and> files (snd (script L inp w)) ''user_comments.txt''
                    = files w ''user_comments.txt'')
       \<and> (writable w ''user_comments.txt'' \<and> \<not> encodable w (comment_text inp)
            \<longrightarrow> ends_at L inp w UnicodeEncodeError (Call_write ''user_comments.txt'')
                \<and> files (snd (script L inp w)) ''user_comments.txt''
                    = files w ''user_comments.txt'')))"
proof (rule conjI)
  show "sidebar_radio nav_options (radio_choice inp) = ''Image Classifier'' \<longrightarrow>
      (\<forall>e. file_uploader L upload_types (uploaded inp) = Inl e
          \<longrightarrow> ends_at L inp w e (Call_file_uploader upload_types))
    \<and> (\<forall>u e. file_uploader L upload_types (uploaded inp) = Inr (Some u)
             \<and> image_open L (up_content u) = Inl e
          \<longrightarrow> ends_at L inp w e (Call_image_open (up_content u)))
    \<and> (\<forall>img. run_image L inp w = Some img \<longrightarrow>
         (\<forall>e. model_cache w = None \<and> resnet50 L = Inl e \<longrightarrow> ends_at L inp w e Call_resnet50)
       \<and> (\<forall>model. run_model L w = Some model \<longrightarrow>
            (\<forall>e. preprocess_func L img = Inl e \<longrightarrow> ends_at L inp w e Call_preprocess)
          \<and> (\<forall>x. preprocess_func L img = Inr x \<longrightarrow>
               (\<forall>e. softmax_out L model x = Inl e \<longrightarrow> ends_at L inp w e Call_model)
             \<and> (\<forall>probs. softmax_out L model x = Inr probs \<longrightarrow>
                  (snd (top_five probs) = [] \<longrightarrow> ends_at L inp w IndexError Call_model)
                \<and> (\<forall>t rest. snd (top_five probs) = t # rest \<longrightarrow>
                     (\<forall>e. ig_attribute L model x t = Inl e
                         \<longrightarrow> ends_at L inp w e (Call_attribute t))
                   \<and> (\<forall>f. ig_attribute L model x t = Inr f \<longrightarrow>
                        (\<not> list_all (\<lambda>i. i < length (categories L)) (t # rest)
                            \<longrightarrow> ends_at L inp w IndexError (Call_attribute t))
                      \<and> (\<forall>e. list_all (\<lambda>i. i < length (categories L)) (t # rest)
                             \<and> image_save L img (upper (lower (image_format L img))) = Inl e
                            \<longrightarrow> ends_at L inp w e
                                  (Call_image_save (upper (lower (image_format L img)))))))))))"
  proof (intro impI conjI allI)
    fix e
    assume "sidebar_radio nav_options (radio_choice inp) = ''Image Classifier''"
      "file_uploader L upload_types (uploaded inp) = Inl e"
    then show "ends_at L inp w e (Call_file_uploader upload_types)" by (rule uploader_fails)
  next
    fix u e
    assume page: "sidebar_radio nav_options (radio_choice inp) = ''Image Classifier''"
      and h: "file_uploader L upload_types (uploaded inp) = Inr (Some u)
             \<and> image_open L (up_content u) = Inl e"
    show "ends_at L inp w e (Call_image_open (up_content u))"
      using page h [THEN conjunct1] h [THEN conjunct2] by (rule image_open_fails)
  next
    fix img e
    assume page: "sidebar_radio nav_options (radio_choice inp) = ''Image Classifier''"
      and img: "run_image L inp w = Some img"
      and h: "model_cache w = None \<and> resnet50 L = Inl e"
    show "ends_at L inp w e Call_resnet50"
      using page img h [THEN conjunct1] h [THEN conjunct2] by (rule load_fails)
  next
    fix img model e
    assume "sidebar_radio nav_options (radio_choice inp) = ''Image Classifier''"
      "run_image L inp w = Some img" "run_model L w = Some model"
      "preprocess_func L img = Inl e"
    then show "ends_at L inp w e Call_preprocess" by (rule preprocess_fails)
  next
    fix img model x e
    assume "sidebar_radio nav_options (radio_choice inp) = ''Image Classifier''"
      "run_image L inp w = Some img" "run_model L w = Some model"
      "preprocess_func L img = Inr x" "softmax_out L model x = Inl e"
    then show "ends_at L inp w e Call_model" by (rule model_fails)
  next
    fix img model x probs
    assume "sidebar_radio nav_options (radio_choice inp) = ''Image Classifier''"
      "run_image L inp w = Some img" "run_model L w = Some model"
      "preprocess_func L img = Inr x" "softmax_out L model x = Inr probs"
      "snd (top_five probs) = []"
    then show "ends_at L inp w IndexError Call_model" by (rule no_index_fails)
  next
    fix img model x probs t rest e
    assume "sidebar_radio nav_options (radio_choice inp) = ''Image Classifier''"
      "run_image L inp w = Some img" "run_model L w = Some model"
      "preprocess_func L img = Inr x" "softmax_out L model x = Inr probs"
      "snd (top_five probs) = t # rest" "ig_attribute L model x t = Inl e"
    then show "ends_at L inp w e (Call_attribute t)" by (rule attribute_fails)
  next
    fix img model x probs t rest f
    assume "sidebar_radio nav_options (radio_choice inp) = ''Image Classifier''"
      "run_image L inp w = Some img" "run_model L w = Some model"
      "preprocess_func L img = Inr x" "softmax_out L model x = Inr probs"
      "snd (top_five probs) = t # rest" "ig_attribute L model x t = Inr f"
      "\<not> list_all (\<lambda>i. i < length (categories L)) (t # rest)"
    then show "ends_at L inp w IndexError (Call_attribute t)" by (rule categories_fail)
  next
    fix img model x probs t rest f e
    assume a: "sidebar_radio nav_options (radio_choice inp) = ''Image Classifier''"
      "run_image L inp w = Some img" "run_model L w = Some model"
      "preprocess_func L img = Inr x" "softmax_out L model x = Inr probs"
      "snd (top_five probs) = t # rest" "ig_attribute L model x t = Inr f"
      and h: "list_all (\<lambda>i. i < length (categories L)) (t # rest)
               \<and> image_save L img (upper (lower (image_format L img))) = Inl e"
    show "ends_at L inp w e (Call_image_save (upper (lower (image_format L img))))"
      using a h [THEN conjunct1] h [THEN conjunct2] by (rule image_save_fails)
  qed
next
  show "sidebar_radio nav_options (radio_choice inp) = ''Connect to Us'' \<longrightarrow>
      (\<forall>fn. ss_new_filename (session w) = Some fn
             \<and> (like_clicked inp \<or> dislike_clicked inp) \<longrightarrow>
         (\<not> writable w ''feedback.txt''
            \<longrightarrow> ends_at L inp w OSError (Call_open_append ''feedback.txt'')
                \<and> files (snd (script L inp w)) = files w)
       \<and> (writable w ''feedback.txt'' \<and> \<not> encodable w fn
            \<longrightarrow> ends_at L inp w UnicodeEncodeError (Call_write ''feedback.txt'')
                \<and> files (snd (script L inp w)) = files w))
    \<and> (feedback_succeeds inp w \<and> submit_clicked inp \<longrightarrow>
         (\<not> writable w ''user_comments.txt''
            \<longrightarrow> ends_at L inp w OSError (Call_open_append ''user_comments.txt'')
                \<and> files (snd (script L inp w)) ''user_comments.txt''
                    = files w ''user_comments.txt'')
       \<and> (writable w ''user_comments.txt'' \<and> \<not> encodable w (comment_text inp)
            \<longrightarrow> ends_at L inp w UnicodeEncodeError (Call_write ''user_comments.txt'')
                \<and> files (snd (script L inp w)) ''user_comments.txt''
                    = files w ''user_comments.txt''))"
  proof (rule impI)
    assume page: "sidebar_radio nav_options (radio_choice inp) = ''Connect to Us''"
    have fb: "\<forall>fn. ss_new_filename (session w) = Some fn
             \<and> (like_clicked inp \<or> dislike_clicked inp) \<longrightarrow>
         (\<not> writable w ''feedback.txt''
            \<longrightarrow> ends_at L inp w OSError (Call_open_append ''feedback.txt'')
                \<and> files (snd (script L inp w)) = files w)
       \<and> (writable w ''feedback.txt'' \<and> \<not> encodable w fn
            \<longrightarrow> ends_at L inp w UnicodeEncodeError (Call_write ''feedback.txt'')
                \<and> files (snd (script L inp w)) = files w)"
    proof (intro allI impI)
      fix fn
      assume h: "ss_new_filename (session w) = Some fn
             \<and> (like_clicked inp \<or> dislike_clicked inp)"
      note a = feedback_fails [OF page h [THEN conjunct1] h [THEN conjunct2], of L]
      have o: "\<not> writable w ''feedback.txt''
            \<longrightarrow> ends_at L inp w OSError (Call_open_append ''feedback.txt'')
                \<and> files (snd (script L inp w)) = files w"
        using a(1) by (rule impI)
      have e: "writable w ''feedback.txt'' \<and> \<not> encodable w fn
            \<longrightarrow> ends_at L inp w UnicodeEncodeError (Call_write ''feedback.txt'')
                \<and> files (snd (script L inp w)) = files w"
      proof (rule impI)
        assume k: "writable w ''feedback.txt'' \<and> \<not> encodable w fn"
        show "ends_at L inp w UnicodeEncodeError (Call_write ''feedback.txt'')
                \<and> files (snd (script L inp w)) = files w"
          using k [THEN conjunct1] k [THEN conjunct2] by (rule a(2))
      qed
      show "(\<not> writable w ''feedback.txt''
            \<longrightarrow> ends_at L inp w OSError (Call_open_append ''feedback.txt'')
                \<and> files (snd (script L inp w)) = files w)
       \<and> (writable w ''feedback.txt'' \<and> \<not> encodable w fn
            \<longrightarrow> ends_at L inp w UnicodeEncodeError (Call_write ''feedback.txt'')
                \<and> files (snd (script L inp w)) = files w)"
        using o e by (rule conjI)
    qed
    have uc: "feedback_succeeds inp w \<and> submit_clicked inp \<longrightarrow>
         (\<not> writable w ''user_comments.txt''
            \<longrightarrow> ends_at L inp w OSError (Call_open_append ''user_comments.txt'')
                \<and> files (snd (script L inp w)) ''user_comments.txt''
                    = files w ''user_comments.txt'')
       \<and> (writable w ''user_comments.txt'' \<and> \<not> encodable w (comment_text inp)
            \<longrightarrow> ends_at L inp w UnicodeEncodeError (Call_write ''user_comments.txt'')
                \<and> files (snd (script L inp w)) ''user_comments.txt''
                    = files w ''user_comments.txt'')"
    proof (rule impI)
      assume h: "feedback_succeeds inp w \<and> submit_clicked inp"
      note a = comment_fails [OF page h [THEN conjunct1] h [THEN conjunct2], of L]
      have o: "\<not> writable w ''user_comments.txt''
            \<longrightarrow> ends_at L inp w OSError (Call_open_append ''user_comments.txt'')
                \<and> files (snd (script L inp w)) ''user_comments.txt''
                    = files w ''user_comments.txt''"
        using a(1) by (rule impI)
      have e: "writable w ''user_comments.txt'' \<and> \<not> encodable w (comment_text inp)
            \<longrightarrow> ends_at L inp w UnicodeEncodeError (Call_write ''user_comments.txt'')
                \<and> files (snd (script L inp w)) ''user_comments.txt''
                    = files w ''user_comments.txt''"
      proof (rule impI)
        assume k: "writable w ''user_comments.txt'' \<and> \<not> encodable w (comment_text inp)"
        show "ends_at L inp w UnicodeEncodeError (Call_write ''user_comments.txt'')
                \<and> files (snd (script L inp w)) ''user_comments.txt''
                    = files w ''user_comments.txt''"
          using k [THEN conjunct1] k [THEN conjunct2] by (rule a(2))
      qed
      show "(\<not> writable w ''user_comments.txt''
            \<longrightarrow> ends_at L inp w OSError (Call_open_append ''user_comments.txt'')
                \<and> files (snd (script L inp w)) ''user_comments.txt''
                    = files w ''user_comments.txt'')
       \<and> (writable w ''user_comments.txt'' \<and> \<not> encodable w (comment_text inp)
            \<longrightarrow> ends_at L inp w UnicodeEncodeError (Call_write ''user_comments.txt'')
                \<and> files (snd (script L inp w)) ''user_comments.txt''
                    = files w ''user_comments.txt'')"
        using o e by (rule conjI)
    qed
    show "(\<forall>fn. ss_new_filename (session w) = Some fn
             \<and> (like_clicked inp \<or> dislike_clicked inp) \<longrightarrow>
         (\<not> writable w ''feedback.txt''
            \<longrightarrow> ends_at L inp w OSError (Call_open_append ''feedback.txt'')
                \<and> files (snd (script L inp w)) = files w)
       \<and> (writable w ''feedback.txt'' \<and> \<not> encodable w fn
            \<longrightarrow> ends_at L inp w UnicodeEncodeError (Call_write ''feedback.txt'')
                \<and> files (snd (script L inp w)) = files w))
    \<and> (feedback_succeeds inp w \<and> submit_clicked inp \<longrightarrow>
         (\<not> writable w ''user_comments.txt''
            \<longrightarrow> ends_at L inp w OSError (Call_open_append ''user_comments.txt'')
                \<and> files (snd (script L inp w)) ''user_comments.txt''
                    = files w ''user_comments.txt'')
       \<and> (writable w ''user_comments.txt'' \<and> \<not> encodable w (comment_text inp)
            \<longrightarrow> ends_at L inp w UnicodeEncodeError (Call_write ''user_comments.txt'')
                \<and> files (snd (script L inp w)) ''user_comments.txt''
                    = files w ''user_comments.txt''))"
      using fb uc by (rule conjI)
  qed
qed

theorem failures_propagate_witness:
  "(file_uploader demo_libs upload_types (uploaded gif_inputs) = Inl StreamlitAPIException
    \<and> ends_at demo_libs gif_inputs demo_world StreamlitAPIException
          (Call_file_uploader upload_types))
   \<and> (file_uploader demo_libs upload_types (uploaded bad_upload_inputs) = Inr (Some bad_upload)
      \<and> image_open demo_libs (up_content bad_upload) = Inl UnidentifiedImageError
      \<and> ends_at demo_libs bad_upload_inputs demo_world UnidentifiedImageError
            (Call_image_open (up_content bad_upload)))
   \<and> (run_image no_weights_libs upload_inputs demo_world = Some (''JPEG'', ''abc'')
      \<and> model_cache demo_world = None \<and> resnet50 no_weights_libs = Inl ModelLoadError
      \<and> ends_at no_weights_libs upload_inputs demo_world ModelLoadError Call_resnet50)
   \<and> (run_model no_preprocess_libs demo_world = Some ()
      \<and> preprocess_func no_preprocess_libs (''JPEG'', ''abc'') = Inl (LibraryError ''preprocess'')
      \<and> ends_at no_preprocess_libs upload_inputs demo_world (LibraryError ''preprocess'')
            Call_preprocess)
   \<and> (softmax_out no_forward_libs () (map of_char ''abc'') = Inl (LibraryError ''forward'')
      \<and> ends_at no_forward_libs upload_inputs demo_world (LibraryError ''forward'') Call_model)
   \<and> (softmax_out no_outputs_libs () (map of_char ''abc'') = Inr []
      \<and> snd (top_five ([] :: real list)) = []
      \<and> ends_at no_outputs_libs upload_inputs demo_world IndexError Call_model)
   \<and> (snd (top_five demo_probs) = 2 # [3, 4, 5, 0]
      \<and> ig_attribute no_attribution_libs () (map of_char ''abc'') 2
           = Inl (LibraryError ''attribute'')
      \<and> ends_at no_attribution_libs upload_inputs demo_world (LibraryError ''attribute'')
            (Call_attribute 2))
   \<and> (\<not> list_all (\<lambda>i. i < length (categories few_categories_libs)) (2 # [3, 4, 5, 0])
      \<and> ends_at few_categories_libs upload_inputs demo_world IndexError (Call_attribute 2))
   \<and> (list_all (\<lambda>i. i < length (categories no_save_libs)) (2 # [3, 4, 5, 0])
      \<and> image_save no_save_libs (''JPEG'', ''abc'')
           (upper (lower (image_format no_save_libs (''JPEG'', ''abc''))))
           = Inl (LibraryError ''save'')
      \<and> ends_at no_save_libs upload_inputs demo_world (LibraryError ''save'')
            (Call_image_save (upper (lower (image_format no_save_libs (''JPEG'', ''abc''))))))
   \<and> (\<not> writable (read_only classified_world) ''feedback.txt''
      \<and> ends_at demo_libs like_inputs (read_only classified_world) OSError
            (Call_open_append ''feedback.txt'')
      \<and> files (snd (script demo_libs like_inputs (read_only classified_world)))
           = files (read_only classified_world))
   \<and> (writable accent_world ''feedback.txt'' \<and> \<not> encodable accent_world (accent @ ''.jpeg'')
      \<and> ends_at demo_libs dislike_inputs accent_world UnicodeEncodeError
            (Call_write ''feedback.txt'')
      \<and> files (snd (script demo_libs dislike_inputs accent_world)) = files accent_world)
   \<and> (feedback_succeeds comment_inputs (read_only demo_world)
      \<and> \<not> writable (read_only demo_world) ''user_comments.txt''
      \<and> ends_at demo_libs comment_inputs (read_only demo_world) OSError
            (Call_open_append ''user_comments.txt'')
      \<and> files (snd (script demo_libs comment_inputs (read_only demo_world))) ''user_comments.txt''
           = files (read_only demo_world) ''user_comments.txt'')
   \<and> (feedback_succeeds accent_inputs demo_world
      \<and> writable demo_world ''user_comments.txt''
      \<and> \<not> encodable demo_world (comment_text accent_inputs)
      \<and> ends_at demo_libs accent_inputs demo_world UnicodeEncodeError
            (Call_write ''user_comments.txt'')
      \<and> files (snd (script demo_libs accent_inputs demo_world)) ''user_comments.txt''
           = files demo_world ''user_comments.txt'')"
proof -
  note i = demo_failing_image and m = demo_failing_model and f = demo_failing_steps
    and b = demo_bad_upload and g = demo_feedback_failing and k = demo_comment_failing
  note t1 = failures_propagate [where L = demo_libs and inp = gif_inputs and w = demo_world,
      THEN conjunct1, THEN mp, OF demo_classifier_pages(1)]
  note t2 = failures_propagate [where L = demo_libs and inp = bad_upload_inputs
      and w = demo_world, THEN conjunct1, THEN mp, OF demo_classifier_pages(2)]
  note t3 = failures_propagate [where L = no_weights_libs and inp = upload_inputs
      and w = demo_world, THEN conjunct1, THEN mp, OF demo_upload_page]
  note t4 = failures_propagate [where L = no_preprocess_libs and inp = upload_inputs
      and w = demo_world, THEN conjunct1, THEN mp, OF demo_upload_page]
  note t5 = failures_propagate [where L = no_forward_libs and inp = upload_inputs
      and w = demo_world, THEN conjunct1, THEN mp, OF demo_upload_page]
  note t6 = failures_propagate [where L = no_outputs_libs and inp = upload_inputs
      and w = demo_world, THEN conjunct1, THEN mp, OF demo_upload_page]
  note t7 = failures_propagate [where L = no_attribution_libs and inp = upload_inputs
      and w = demo_world, THEN conjunct1, THEN mp, OF demo_upload_page]
  note t8 = failures_propagate [where L = few_categories_libs and inp = upload_inputs
      and w = demo_world, THEN conjunct1, THEN mp, OF demo_upload_page]
  note t9 = failures_propagate [where L = no_save_libs and inp = upload_inputs
      and w = demo_world, THEN conjunct1, THEN mp, OF demo_upload_page]
  note t10 = failures_propagate [where L = demo_libs and inp = like_inputs
      and w = "read_only classified_world", THEN conjunct2, THEN mp, OF demo_connect_pages(1)]
  note t11 = failures_propagate [where L = demo_libs and inp = dislike_inputs
      and w = accent_world, THEN conjunct2, THEN mp, OF demo_connect_pages(2)]
  note t12 = failures_propagate [where L = demo_libs and inp = comment_inputs
      and w = "read_only demo_world", THEN conjunct2, THEN mp, OF demo_connect_pages(3)]
  note t13 = failures_propagate [where L = demo_libs and inp = accent_inputs
      and w = demo_world, THEN conjunct2, THEN mp, OF demo_connect_pages(4)]
  have c1: "ends_at demo_libs gif_inputs demo_world StreamlitAPIException
          (Call_file_uploader upload_types)"
    using t1 demo_refused by blast
  have c2: "ends_at demo_libs bad_upload_inputs demo_world UnidentifiedImageError
            (Call_image_open (up_content bad_upload))"
    using t2 b(1,2) by blast
  have c3: "ends_at no_weights_libs upload_inputs demo_world ModelLoadError Call_resnet50"
    using t3 i(1) m(1,2) by blast
  have c4: "ends_at no_preprocess_libs upload_inputs demo_world (LibraryError ''preprocess'')
            Call_preprocess"
    using t4 i(2) m(3) f(1) by blast
  have c5: "ends_at no_forward_libs upload_inputs demo_world (LibraryError ''forward'') Call_model"
    using t5 i(3) m(4) f(2,3) by blast
  have c6: "ends_at no_outputs_libs upload_inputs demo_world IndexError Call_model"
    using t6 i(4) m(5) f(4,5,6) by blast
  have c7: "ends_at no_attribution_libs upload_inputs demo_world (LibraryError ''attribute'')
            (Call_attribute 2)"
    using t7 i(5) m(6) f(7,8,9,10) by blast
  have c8: "ends_at few_categories_libs upload_inputs demo_world IndexError (Call_attribute 2)"
    using t8 i(6) m(7) f(11,12,9,13,14) by blast
  have c9: "ends_at no_save_libs upload_inputs demo_world (LibraryError ''save'')
            (Call_image_save (upper (lower (image_format no_save_libs (''JPEG'', ''abc'')))))"
    using t9 i(7) m(8) f(15,16,9,17,18,19) by blast
  have c10: "ends_at demo_libs like_inputs (read_only classified_world) OSError
            (Call_open_append ''feedback.txt'')
      \<and> files (snd (script demo_libs like_inputs (read_only classified_world)))
           = files (read_only classified_world)"
    using t10 g(1,2,3) by blast
  have c11: "ends_at demo_libs dislike_inputs accent_world UnicodeEncodeError
            (Call_write ''feedback.txt'')
      \<and> files (snd (script demo_libs dislike_inputs accent_world)) = files accent_world"
    using t11 g(4,5,6,7) by blast
  have c12: "ends_at demo_libs comment_inputs (read_only demo_world) OSError
            (Call_open_append ''user_comments.txt'')
      \<and> files (snd (script demo_libs comment_inputs (read_only demo_world))) ''user_comments.txt''
           = files (read_only demo_world) ''user_comments.txt''"
    using t12 k(1,2,3) by blast
  have c13: "ends_at demo_libs accent_inputs demo_world UnicodeEncodeError
            (Call_write ''user_comments.txt'')
      \<and> files (snd (script demo_libs accent_inputs demo_world)) ''user_comments.txt''
           = files demo_world ''user_comments.txt''"
    using t13 k(4,5,6,7) by blast
  show ?thesis
    using c1 c2 c3 c4 c5 c6 c7 c8 c9 c10 c11 c12 c13 demo_refused b(1,2) i(1) m(1,2,3)
      f(1,3,5,6,9,10,14,18,19) g(3,6,7) k(1,3,4,6,7)
    by (intro conjI) (elim conjE; assumption)+
qed

end
